theory Spec2Isabelle
  imports Complex_Main "HOL-Library.AList" "HOL-Library.Sublist"
begin

section \<open>The knowledge-ingestion engine of \<^verbatim>\<open>src/tools/base.py\<close>\<close>

text \<open>
  The class \<^verbatim>\<open>EmbeddedSystemsTools\<close> classifies files by extension, extracts their
  text, splits it into chunks, submits the chunks to a vector store and keeps an
  in-memory ledger of the files it has ingested. The embedding below follows the
  methods of that class one by one. Strings are lists of characters; a character stands
  for a code point below 256. Python exceptions are values: a step that can raise
  returns \<open>exn + 'a\<close>, and every \<^verbatim>\<open>try/except\<close> of the source is a case
  distinction on such a value.
\<close>

subsection \<open>Strings\<close>

text \<open>\<^verbatim>\<open>str.lower()\<close> on code points below 256: the ASCII capitals and the Latin-1
  capitals (all of \<open>0xC0..0xDE\<close> but the multiplication sign) move up by 32.\<close>

definition lower_char :: "char \<Rightarrow> char" where
  "lower_char c =
     (let n = (of_char c :: nat)
      in if (65 \<le> n \<and> n \<le> 90) \<or> (192 \<le> n \<and> n \<le> 222 \<and> n \<noteq> 215)
         then char_of (n + 32) else c)"

definition lower :: "string \<Rightarrow> string" where
  "lower s = map lower_char s"

text \<open>The characters \<^verbatim>\<open>str.strip()\<close> removes: those for which \<^verbatim>\<open>str.isspace()\<close>
  holds, here for code points below 256.\<close>

definition isspace :: "char \<Rightarrow> bool" where
  "isspace c =
     (let n = (of_char c :: nat)
      in (9 \<le> n \<and> n \<le> 13) \<or> (28 \<le> n \<and> n \<le> 32) \<or> n = 133 \<or> n = 160)"

definition strip :: "string \<Rightarrow> string" where
  "strip s = rev (dropWhile isspace (rev (dropWhile isspace s)))"

text \<open>\<^verbatim>\<open>needle in haystack\<close> on strings: the needle occurs as a contiguous run.\<close>

fun contains :: "string \<Rightarrow> string \<Rightarrow> bool" where
  "contains needle [] = (needle = [])"
| "contains needle (c # cs) = (prefix needle (c # cs) \<or> contains needle cs)"

text \<open>The decimal rendering of a non-negative integer inside an f-string.\<close>

fun str_of_nat :: "nat \<Rightarrow> string" where
  "str_of_nat n =
     (if n < 10 then [char_of (48 + n)]
      else str_of_nat (n div 10) @ [char_of (48 + n mod 10)])"

declare str_of_nat.simps [simp del]

subsection \<open>The extension tables\<close>

text \<open>\<^verbatim>\<open>SUPPORTED_EXTENSIONS\<close> is a dict from extension to a label, kept here as an
  association list in the order of the source; \<^verbatim>\<open>SKIP_EXTENSIONS\<close> is a set literal.\<close>

definition SUPPORTED_EXTENSIONS :: "(string \<times> string) list" where
  "SUPPORTED_EXTENSIONS =
    [(''.pdf'', ''PDF Document''),
     (''.txt'', ''Text File''),
     (''.md'', ''Markdown''),
     (''.adoc'', ''AsciiDoc''),
     (''.ino'', ''Arduino Code''),
     (''.pde'', ''Processing Code''),
     (''.cpp'', ''C++ Code''),
     (''.c'', ''C Code''),
     (''.h'', ''Header File''),
     (''.hpp'', ''C++ Header''),
     (''.py'', ''Python Code''),
     (''.java'', ''Java Code''),
     (''.json'', ''JSON Data''),
     (''.csv'', ''CSV Data''),
     (''.yaml'', ''YAML Config''),
     (''.yml'', ''YAML Config''),
     (''.properties'', ''Properties Config''),
     (''.sh'', ''Shell Script''),
     (''.sb3'', ''Scratch Project''),
     (''.jpg'', ''Image''),
     (''.png'', ''Image''),
     (''.svg'', ''Vector Image''),
     (''.webm'', ''Video''),
     (''.gz'', ''Archive''),
     (''.tar'', ''Archive''),
     (''.jar'', ''Java Archive''),
     (''.fzz'', ''Fritzing''),
     (''.vlw'', ''Font''),
     (''.ttf'', ''Font'')]"

definition SKIP_EXTENSIONS :: "string list" where
  "SKIP_EXTENSIONS =
    [''.sb3'', ''.jpg'', ''.png'', ''.svg'', ''.webm'',
     ''.gz'', ''.tar'', ''.jar'', ''.fzz'', ''.vlw'', ''.ttf'',
     ''.idx'', ''.pack'', ''.rev'']"

subsection \<open>Files, documents and the engine state\<close>

datatype exn = Exception string

datatype meta_value = MStr string | MInt int

record document =
  page_content :: string
  metadata :: "(string \<times> meta_value) list"

text \<open>A file is what the code observes of a \<^verbatim>\<open>Path\<close>: its \<^verbatim>\<open>name\<close>, \<^verbatim>\<open>str(path)\<close>,
  \<^verbatim>\<open>resolve()\<close>, \<^verbatim>\<open>suffix\<close>, \<^verbatim>\<open>exists()\<close>, \<^verbatim>\<open>stat().st_size\<close>, the text that
  \<^verbatim>\<open>open(..., errors='ignore').read()\<close> gives, and the pages that
  \<^verbatim>\<open>PyPDFLoader(...).load()\<close> gives. The last three can raise.\<close>

record file_entry =
  f_name :: string
  f_path :: string
  f_resolved :: string
  f_suffix :: string
  f_exists :: bool
  f_stat_size :: "exn + nat"
  f_read :: "exn + string"
  f_pdf :: "exn + document list"

record ingestion_record =
  r_path :: string
  r_type :: string
  r_chunks :: nat
  r_size :: nat

text \<open>The vector store is \<^verbatim>\<open>None\<close> when its construction failed. The ledger
  \<^verbatim>\<open>ingested_files\<close> is a dict keyed by file name; an association list with
  \<^const>\<open>AList.update\<close> keeps Python's insertion order and its overwrite in place.\<close>

record engine =
  vectorstore :: "document list option"
  ingested_files :: "(string \<times> ingestion_record) list"

text \<open>The external collaborators: the text splitter and the two operations of the
  vector store. Each may raise.\<close>

record env =
  split_documents :: "document list \<Rightarrow> exn + document list"
  add_documents :: "document list \<Rightarrow> document list \<Rightarrow> exn + document list"
  similarity_search_with_score ::
    "document list \<Rightarrow> string \<Rightarrow> int \<Rightarrow> exn + (document \<times> rat) list"

subsection \<open>Extraction: \<^verbatim>\<open>_load_file\<close>\<close>

text \<open>Every path through \<^verbatim>\<open>_load_file\<close> either returns \<^verbatim>\<open>None\<close> or binds
  \<^verbatim>\<open>docs\<close> and reaches the final \<^verbatim>\<open>return docs if docs else None\<close>. The PDF branch
  has its own \<^verbatim>\<open>try/except\<close>, which turns a raising \<^verbatim>\<open>stat\<close> or loader into
  \<^verbatim>\<open>None\<close>; the outer \<^verbatim>\<open>try/except\<close> does the same for a raising \<^verbatim>\<open>open/read\<close>.\<close>

definition docs_or_none :: "document list \<Rightarrow> document list option" where
  "docs_or_none docs = (if docs = [] then None else Some docs)"

definition text_document :: "file_entry \<Rightarrow> string \<Rightarrow> document" where
  "text_document f content =
     \<lparr>page_content = content, metadata = [(''source'', MStr (f_path f))]\<rparr>"

text \<open>The two list literals of the \<^verbatim>\<open>elif\<close> branches.\<close>

definition text_extensions :: "string list" where
  "text_extensions = [''.txt'', ''.md'', ''.adoc'']"

definition code_extensions :: "string list" where
  "code_extensions =
     [''.ino'', ''.pde'', ''.cpp'', ''.c'', ''.h'', ''.hpp'', ''.py'', ''.java'',
      ''.json'', ''.csv'', ''.yaml'', ''.yml'', ''.properties'', ''.sh'']"

definition load_file :: "file_entry \<Rightarrow> document list option" where
  "load_file f =
     (let file_ext = lower (f_suffix f)
      in if file_ext \<in> set SKIP_EXTENSIONS then None
         else if map_of SUPPORTED_EXTENSIONS file_ext = None then None
         else if file_ext = ''.pdf'' then
           (case f_stat_size f of
              Inl e \<Rightarrow> None
            | Inr st_size \<Rightarrow>
                if st_size < 100 then None
                else (case f_pdf f of
                        Inl e \<Rightarrow> None
                      | Inr docs \<Rightarrow>
                          if docs = [] \<or> list_all (\<lambda>doc. length (strip (page_content doc)) < 50) docs
                          then None
                          else docs_or_none docs))
         else if file_ext \<in> set text_extensions then
           (case f_read f of
              Inl e \<Rightarrow> None
            | Inr content \<Rightarrow>
                if length (strip content) < 10 then None
                else docs_or_none [text_document f content])
         else if file_ext \<in> set code_extensions then
           (case f_read f of
              Inl e \<Rightarrow> None
            | Inr content \<Rightarrow>
                if length (strip content) < 10 then None
                else docs_or_none [text_document f content])
         else None)"

subsection \<open>Single-file ingestion: \<^verbatim>\<open>add_knowledge\<close>\<close>

text \<open>The handler \<^verbatim>\<open>except Exception as e\<close> returns the first 100 characters of the
  exception's text behind the prefix \<^verbatim>\<open>Error: \<close>.\<close>

definition error_message :: "exn \<Rightarrow> string" where
  "error_message e = (case e of Exception s \<Rightarrow> ''Error: '' @ take 100 s)"

text \<open>The loop over \<^verbatim>\<open>texts\<close> stamps four metadata keys on every chunk.\<close>

definition stamp :: "file_entry \<Rightarrow> string \<Rightarrow> document \<Rightarrow> document" where
  "stamp f file_type doc =
     doc\<lparr>metadata :=
           AList.update ''chunk_size'' (MInt (int (length (page_content doc))))
             (AList.update ''file_type'' (MStr file_type)
               (AList.update ''source_path'' (MStr (f_path f))
                 (AList.update ''source_file'' (MStr (f_name f)) (metadata doc))))\<rparr>"

text \<open>The check mark that opens the success messages is U+2705, written here as its
  three UTF-8 bytes.\<close>

definition check_mark :: string where
  "check_mark = [CHR 0xE2, CHR 0x9C, CHR 0x85]"

definition added_message :: "nat \<Rightarrow> string \<Rightarrow> string \<Rightarrow> string" where
  "added_message n name file_type =
     check_mark @ '' Added '' @ str_of_nat n @ '' chunks from '' @ name
       @ '' ('' @ file_type @ '')''"

text \<open>\<^verbatim>\<open>add_knowledge\<close> returns the pair \<open>(success, message)\<close> and the engine after the
  call. The vector store is written before the ledger entry is built, and the entry
  reads \<^verbatim>\<open>stat().st_size\<close> while it is built: a raising \<^verbatim>\<open>stat\<close> there leaves the
  chunks in the store and the ledger as it was.\<close>

definition add_knowledge :: "env \<Rightarrow> engine \<Rightarrow> file_entry \<Rightarrow> (bool \<times> string) \<times> engine" where
  "add_knowledge ev s f =
     (if \<not> f_exists f then ((False, ''File not found: '' @ f_path f), s)
      else
        let file_ext = lower (f_suffix f)
        in case map_of SUPPORTED_EXTENSIONS file_ext of
             None \<Rightarrow> ((False, ''Unsupported file type: '' @ file_ext), s)
           | Some file_type \<Rightarrow>
               if file_ext \<in> set SKIP_EXTENSIONS
               then ((False, ''Binary file skipped: '' @ file_ext), s)
               else
                 (case load_file f of
                    None \<Rightarrow> ((False, ''No content extracted from '' @ f_name f), s)
                  | Some documents \<Rightarrow>
                      (case split_documents ev documents of
                         Inl e \<Rightarrow> ((False, error_message e), s)
                       | Inr texts0 \<Rightarrow>
                           if texts0 = []
                           then ((False, ''No text chunks created from '' @ f_name f), s)
                           else
                             let texts = map (stamp f file_type) texts0
                             in (case vectorstore s of
                                   None \<Rightarrow> ((False, ''Vector store not available''), s)
                                 | Some vs \<Rightarrow>
                                     (case add_documents ev vs texts of
                                        Inl e \<Rightarrow> ((False, error_message e), s)
                                      | Inr vs' \<Rightarrow>
                                          (case f_stat_size f of
                                             Inl e \<Rightarrow>
                                               ((False, error_message e),
                                                s\<lparr>vectorstore := Some vs'\<rparr>)
                                           | Inr st_size \<Rightarrow>
                                               ((True, added_message (length texts) (f_name f) file_type),
                                                s\<lparr>vectorstore := Some vs',
                                                  ingested_files :=
                                                    AList.update (f_name f)
                                                      \<lparr>r_path = f_path f, r_type = file_type,
                                                       r_chunks = length texts, r_size = st_size\<rparr>
                                                      (ingested_files s)\<rparr>)))))))"

definition get_ingested_files :: "engine \<Rightarrow> ingestion_record list" where
  "get_ingested_files s = map snd (ingested_files s)"

definition get_file_info :: "engine \<Rightarrow> string \<Rightarrow> ingestion_record option" where
  "get_file_info s filename = map_of (ingested_files s) filename"

subsection \<open>Paths, the directory tree and \<^verbatim>\<open>Path.glob\<close>\<close>

text \<open>\<^verbatim>\<open>str(Path(p))\<close> on a POSIX system: the components of \<^verbatim>\<open>p\<close> between slashes,
  without the empty ones and the single dots, joined by single slashes behind the root
  (one slash, or two when \<^verbatim>\<open>p\<close> starts with exactly two); a path without components
  and root is a single dot.\<close>

fun split_sep :: "string \<Rightarrow> string list" where
  "split_sep [] = [[]]"
| "split_sep (c # cs) =
     (if c = CHR ''/'' then [] # split_sep cs
      else (case split_sep cs of [] \<Rightarrow> [[c]] | x # xs \<Rightarrow> (c # x) # xs))"

fun join_sep :: "string list \<Rightarrow> string" where
  "join_sep [] = []"
| "join_sep [x] = x"
| "join_sep (x # y # ys) = x @ ''/'' @ join_sep (y # ys)"

definition str_path :: "string \<Rightarrow> string" where
  "str_path p =
     (let stripped = dropWhile (\<lambda>c. c = CHR ''/'') p;
          slashes = length p - length stripped;
          root = (if slashes = 0 then [] else if slashes = 2 then ''//'' else ''/'');
          parts = filter (\<lambda>x. x \<noteq> [] \<and> x \<noteq> ''.'') (split_sep stripped)
      in if root = [] \<and> parts = [] then ''.'' else root @ join_sep parts)"

text \<open>What a directory path leads to: nothing, something that is not a directory, a
  directory with its entries, or a path whose \<^verbatim>\<open>stat\<close> fails with an error that
  \<^verbatim>\<open>Path.exists()\<close> and \<^verbatim>\<open>Path.is_dir()\<close> do not swallow but raise again (a name
  longer than the system allows, a parent directory that may not be searched). An entry
  of a directory is a regular file, a directory, or an entry on which
  \<^verbatim>\<open>Path.is_file()\<close> raises for such a reason.\<close>

datatype node = FileNode file_entry | DirNode string "node list" | BadNode exn

datatype path_target = NoSuchPath | NotADirectory | Directory "node list" | StatRaises exn

definition path_exists :: "path_target \<Rightarrow> exn + bool" where
  "path_exists t =
     (case t of
        NoSuchPath \<Rightarrow> Inr False
      | NotADirectory \<Rightarrow> Inr True
      | Directory children \<Rightarrow> Inr True
      | StatRaises e \<Rightarrow> Inl e)"

definition path_is_dir :: "path_target \<Rightarrow> exn + bool" where
  "path_is_dir t =
     (case t of
        NoSuchPath \<Rightarrow> Inr False
      | NotADirectory \<Rightarrow> Inr False
      | Directory children \<Rightarrow> Inr True
      | StatRaises e \<Rightarrow> Inl e)"

text \<open>\<^verbatim>\<open>glob("*")\<close> gives the entries of the directory. \<^verbatim>\<open>glob("**/*")\<close> visits the
  directory and then the directories below it in preorder, and gives all the entries of
  each directory it visits, files and directories alike. Globbing a path that is not a
  directory gives nothing.\<close>

fun below :: "node \<Rightarrow> node list" where
  "below (FileNode f) = []"
| "below (BadNode e) = []"
| "below (DirNode d children) = children @ concat (map below children)"

definition glob :: "path_target \<Rightarrow> bool \<Rightarrow> node list" where
  "glob t recursive =
     (case t of
        Directory children \<Rightarrow>
          if recursive then children @ concat (map below children) else children
      | _ \<Rightarrow> [])"

subsection \<open>Batch ingestion: \<^verbatim>\<open>ingest_directory\<close>\<close>

text \<open>The test of the first loop on a file: its extension is not in the skip set and is
  in the supported table. (The loop also counts the others in \<^verbatim>\<open>skipped_count\<close>, a
  local that is never read again.)\<close>

definition candidate :: "file_entry \<Rightarrow> bool" where
  "candidate f =
     (let file_ext = lower (f_suffix f)
      in if file_ext \<in> set SKIP_EXTENSIONS then False
         else if map_of SUPPORTED_EXTENSIONS file_ext = None then False
         else True)"

record batch =
  success_count :: nat
  fail_count :: nat
  errors :: "string list"
  processed_files :: "string set"

text \<open>One round of the second loop. The progress line it prints is not part of the
  result. \<^verbatim>\<open>resolve()\<close> raises on a loop of symbolic links only, and an entry that
  \<^verbatim>\<open>is_file()\<close> found to be a regular file is on none; it is taken to return.\<close>

definition ingest_step :: "env \<Rightarrow> batch \<times> engine \<Rightarrow> file_entry \<Rightarrow> batch \<times> engine" where
  "ingest_step ev bs f =
     (let b = fst bs; s = snd bs; file_id = f_resolved f
      in if file_id \<in> processed_files b then (b, s)
         else
           let b1 = b\<lparr>processed_files := insert file_id (processed_files b)\<rparr>;
               r = add_knowledge ev s f;
               success = fst (fst r); message = snd (fst r); s' = snd r
           in if success then (b1\<lparr>success_count := success_count b1 + 1\<rparr>, s')
              else
                let b2 = b1\<lparr>fail_count := fail_count b1 + 1\<rparr>
                in if \<not> contains ''No content extracted'' message
                      \<and> \<not> contains ''Binary file skipped'' message
                   then (b2\<lparr>errors := errors b2 @ [f_name f @ '': '' @ message]\<rparr>, s')
                   else (b2, s'))"

fun ingest_loop :: "env \<Rightarrow> file_entry list \<Rightarrow> batch \<times> engine \<Rightarrow> batch \<times> engine" where
  "ingest_loop ev [] bs = bs"
| "ingest_loop ev (f # fs) bs = ingest_loop ev fs (ingest_step ev bs f)"

definition empty_batch :: batch where
  "empty_batch = \<lparr>success_count = 0, fail_count = 0, errors = [], processed_files = {}\<rparr>"

text \<open>The first loop goes through the entries that \<^verbatim>\<open>glob\<close> gives, drops what is not
  a file and keeps the candidates in order. Its \<^verbatim>\<open>is_file()\<close> is under no \<^verbatim>\<open>try\<close>:
  where it raises, the exception leaves \<^verbatim>\<open>ingest_directory\<close> before any file is
  ingested.\<close>

fun first_loop :: "node list \<Rightarrow> exn + file_entry list" where
  "first_loop [] = Inr []"
| "first_loop (BadNode e # ns) = Inl e"
| "first_loop (DirNode d children # ns) = first_loop ns"
| "first_loop (FileNode f # ns) =
     (case first_loop ns of
        Inl e \<Rightarrow> Inl e
      | Inr fs \<Rightarrow> if candidate f then Inr (f # fs) else Inr fs)"

definition all_files :: "path_target \<Rightarrow> bool \<Rightarrow> exn + file_entry list" where
  "all_files t recursive = first_loop (glob t recursive)"

text \<open>The guard \<^verbatim>\<open>not dir_path.exists() or not dir_path.is_dir()\<close>, which is under no
  \<^verbatim>\<open>try\<close> either.\<close>

definition not_found :: "path_target \<Rightarrow> exn + bool" where
  "not_found t =
     (case path_exists t of
        Inl e \<Rightarrow> Inl e
      | Inr ex \<Rightarrow>
          if \<not> ex then Inr True
          else (case path_is_dir t of Inl e \<Rightarrow> Inl e | Inr d \<Rightarrow> Inr (\<not> d)))"

text \<open>\<^verbatim>\<open>ingest_directory\<close> returns its triple or raises, and leaves the engine as the
  files ingested so far have made it.\<close>

definition ingest_directory ::
  "env \<Rightarrow> engine \<Rightarrow> string \<Rightarrow> path_target \<Rightarrow> bool
     \<Rightarrow> (exn + nat \<times> nat \<times> string list) \<times> engine" where
  "ingest_directory ev s directory_path t recursive =
     (case not_found t of
        Inl e \<Rightarrow> (Inl e, s)
      | Inr True \<Rightarrow> (Inr (0, 1, [''Directory not found: '' @ directory_path]), s)
      | Inr False \<Rightarrow>
          (case all_files t recursive of
             Inl e \<Rightarrow> (Inl e, s)
           | Inr files \<Rightarrow>
               if length files = 0
               then (Inr (0, 0, [''No supported files found in directory'']), s)
               else
                 let r = ingest_loop ev files (empty_batch, s)
                 in (Inr (success_count (fst r), fail_count (fst r), errors (fst r)), snd r)))"

subsection \<open>The dry run: \<^verbatim>\<open>scan_directory\<close>\<close>

text \<open>Sizes in megabytes are floats in the source and exact rationals here. The
  \<^verbatim>\<open>exists()\<close>, \<^verbatim>\<open>is_file()\<close> and \<^verbatim>\<open>stat()\<close> calls of the scan are under no
  \<^verbatim>\<open>try\<close>, so their exceptions leave the function.\<close>

record type_stats =
  ts_count :: nat
  ts_size_mb :: rat

record scan_stats =
  directory :: string
  files_by_type :: "(string \<times> type_stats) list"
  total_files :: nat
  total_size_mb :: rat

datatype scan_result = ScanError string | ScanStats scan_stats

fun scan_loop :: "node list \<Rightarrow> scan_stats \<Rightarrow> exn + scan_stats" where
  "scan_loop [] stats = Inr stats"
| "scan_loop (BadNode e # ns) stats = Inl e"
| "scan_loop (DirNode d children # ns) stats = scan_loop ns stats"
| "scan_loop (FileNode f # ns) stats =
     (let file_ext = lower (f_suffix f)
      in case map_of SUPPORTED_EXTENSIONS file_ext of
           None \<Rightarrow> scan_loop ns stats
         | Some file_type \<Rightarrow>
             if file_ext = ''.sb3'' then scan_loop ns stats
             else
               (case f_stat_size f of
                  Inl e \<Rightarrow> Inl e
                | Inr st_size \<Rightarrow>
                    let size_mb = of_nat st_size / (1024 * 1024);
                        old = (case map_of (files_by_type stats) file_type of
                                 None \<Rightarrow> \<lparr>ts_count = 0, ts_size_mb = 0\<rparr>
                               | Some ts \<Rightarrow> ts)
                    in scan_loop ns
                         (stats\<lparr>files_by_type :=
                                  AList.update file_type
                                    \<lparr>ts_count = ts_count old + 1,
                                     ts_size_mb = ts_size_mb old + size_mb\<rparr>
                                    (files_by_type stats),
                                total_files := total_files stats + 1,
                                total_size_mb := total_size_mb stats + size_mb\<rparr>)))"

definition scan_directory :: "string \<Rightarrow> path_target \<Rightarrow> bool \<Rightarrow> exn + scan_result" where
  "scan_directory directory_path t recursive =
     (case path_exists t of
        Inl e \<Rightarrow> Inl e
      | Inr False \<Rightarrow> Inr (ScanError (''Directory not found: '' @ directory_path))
      | Inr True \<Rightarrow>
          (case scan_loop (glob t recursive)
                  \<lparr>directory = str_path directory_path, files_by_type = [], total_files = 0,
                   total_size_mb = 0\<rparr> of
             Inl e \<Rightarrow> Inl e
           | Inr stats \<Rightarrow> Inr (ScanStats stats)))"

subsection \<open>Retrieval: \<^verbatim>\<open>search_knowledge\<close>\<close>

text \<open>The format \<^verbatim>\<open>.2%\<close> multiplies by 100 and prints the product with two decimals,
  rounded to the nearest and to the even neighbour on a tie, behind a minus sign when the
  number is negative. Scores are floats in the source and exact rationals here.\<close>

definition round_half_even :: "rat \<Rightarrow> int" where
  "round_half_even x =
     (let f = \<lfloor>x\<rfloor>; r = x - of_int f
      in if r < 1 / 2 then f else if 1 / 2 < r then f + 1 else if even f then f else f + 1)"

definition format_percent :: "rat \<Rightarrow> string" where
  "format_percent x =
     (let a = nat \<bar>round_half_even (x * 100 * 100)\<bar>
      in (if x < 0 then ''-'' else []) @ str_of_nat (a div 100) @ ''.''
           @ [char_of (48 + a mod 100 div 10), char_of (48 + a mod 10)] @ ''%'')"

text \<open>A result is either a hit with its six fields or one of the two notices (store
  missing, search raised).\<close>

record hit =
  content :: string
  source_file :: meta_value
  file_type :: meta_value
  source_path :: meta_value
  relevance_score :: string
  chunk_size :: meta_value

datatype search_result = Hit hit | Notice string string

definition meta_get :: "(string \<times> meta_value) list \<Rightarrow> string \<Rightarrow> meta_value \<Rightarrow> meta_value" where
  "meta_get md key dflt = (case map_of md key of None \<Rightarrow> dflt | Some v \<Rightarrow> v)"

definition result_of :: "document \<times> rat \<Rightarrow> search_result" where
  "result_of ds =
     (let doc = fst ds; score = snd ds
      in Hit \<lparr>content = page_content doc,
              source_file = meta_get (metadata doc) ''source_file'' (MStr ''Unknown''),
              file_type = meta_get (metadata doc) ''file_type'' (MStr ''Unknown''),
              source_path = meta_get (metadata doc) ''source_path'' (MStr ''N/A''),
              relevance_score = format_percent (1 - score),
              chunk_size = meta_get (metadata doc) ''chunk_size'' (MStr ''N/A'')\<rparr>)"

definition search_knowledge :: "env \<Rightarrow> engine \<Rightarrow> string \<Rightarrow> int \<Rightarrow> search_result list" where
  "search_knowledge ev s query k =
     (case vectorstore s of
        None \<Rightarrow> [Notice ''Knowledge base not available'' ''N/A'']
      | Some vs \<Rightarrow>
          (case similarity_search_with_score ev vs query k of
             Inl e \<Rightarrow>
               [Notice (''Knowledge search error: '' @ (case e of Exception m \<Rightarrow> m)) ''N/A'']
           | Inr docs \<Rightarrow> map result_of docs))"

subsection \<open>The Corpus Index\<close>

text \<open>Modelled from the spec: the query of the Corpus Index, the external embedding and
  vector store behind \<^verbatim>\<open>similarity_search_with_score\<close>, whose code is no part of the
  repository. The specification gives it the contract
  \<^verbatim>\<open>query(text, k) -> [(chunk, distance)]\<close>, a "similarity query requesting k nearest
  chunks", and lets it be unavailable. How far a chunk is from a query is the
  embedding's business and a parameter here; the answer is the \<open>k\<close> nearest of the stored
  chunks, nearest first, or the exception of an index that is unavailable.\<close>

definition corpus_query ::
  "(string \<Rightarrow> document \<Rightarrow> rat) \<Rightarrow> exn option \<Rightarrow> document list \<Rightarrow> string \<Rightarrow> int
     \<Rightarrow> exn + (document \<times> rat) list" where
  "corpus_query distance unavailable vs query k =
     (case unavailable of
        Some e \<Rightarrow> Inl e
      | None \<Rightarrow>
          Inr (take (nat k) (sort_key snd (map (\<lambda>doc. (doc, distance query doc)) vs))))"

subsection \<open>The start-up decision of \<^verbatim>\<open>src/agent/agent.py\<close>\<close>

record ingest_report =
  kb_success :: bool
  kb_success_count :: nat
  kb_fail_count :: nat
  kb_errors :: "string list"
  kb_message :: string

definition ingest_knowledge_base ::
  "env \<Rightarrow> engine \<Rightarrow> string \<Rightarrow> path_target \<Rightarrow> (exn + ingest_report) \<times> engine" where
  "ingest_knowledge_base ev s directory_path t =
     (let r = ingest_directory ev s directory_path t True
      in case fst r of
           Inl e \<Rightarrow> (Inl e, snd r)
         | Inr (success, fail, errs) \<Rightarrow>
             (Inr \<lparr>kb_success = (fail = 0), kb_success_count = success, kb_fail_count = fail,
                   kb_errors = errs,
                   kb_message = check_mark @ '' Ingested '' @ str_of_nat success @ '' files''
                                  @ (if fail > 0 then '' ('' @ str_of_nat fail @ '' failed)''
                                     else [])\<rparr>,
              snd r))"

definition scan_knowledge_base :: "string \<Rightarrow> path_target \<Rightarrow> exn + scan_result" where
  "scan_knowledge_base directory_path t = scan_directory directory_path t True"

text \<open>\<^verbatim>\<open>int(total_files * 0.05)\<close> multiplies by the float nearest to one twentieth and
  truncates; the product is taken here in exact arithmetic.\<close>

definition tolerance :: "int \<Rightarrow> int" where
  "tolerance total_count = \<lfloor>(of_int total_count :: rat) * (5 / 100)\<rfloor>"

datatype startup =
    ScanProblem string
  | KnowledgeBaseEmpty
  | AlreadyIngested int
  | AutoIngested ingest_report
  | AutoIngestError string

text \<open>The routine scans, decides, and runs the ingestion on an event loop of its own:
  \<^verbatim>\<open>loop.run_until_complete\<close> raises \<^verbatim>\<open>RuntimeError\<close> when an event loop is already
  running in the calling thread, as it is when the agent is built inside
  \<^verbatim>\<open>asyncio.run(main())\<close> (\<^verbatim>\<open>main.py\<close>). The whole body is under one
  \<^verbatim>\<open>try/except Exception\<close>, which turns an exception of the scan, of the event loop or
  of the ingestion into a printed message.\<close>

definition loop_running_error :: string where
  "loop_running_error = ''Cannot run the event loop while another loop is running''"

definition auto_ingest_on_startup ::
  "env \<Rightarrow> engine \<Rightarrow> string \<Rightarrow> path_target \<Rightarrow> bool \<Rightarrow> startup \<times> engine" where
  "auto_ingest_on_startup ev s kb t loop_running =
     (case scan_knowledge_base kb t of
        Inl e \<Rightarrow> (AutoIngestError (case e of Exception m \<Rightarrow> m), s)
      | Inr (ScanError msg) \<Rightarrow> (ScanProblem msg, s)
      | Inr (ScanStats stats) \<Rightarrow>
          let total_count = int (total_files stats)
          in if total_count = 0 then (KnowledgeBaseEmpty, s)
             else
               let ingested_count = int (length (get_ingested_files s))
               in if ingested_count \<ge> total_count - tolerance total_count
                  then (AlreadyIngested ingested_count, s)
                  else if loop_running then (AutoIngestError loop_running_error, s)
                  else
                    let r = ingest_knowledge_base ev s kb t
                    in (case fst r of
                          Inl e \<Rightarrow> (AutoIngestError (case e of Exception m \<Rightarrow> m), snd r)
                        | Inr report \<Rightarrow> (AutoIngested report, snd r)))"

text \<open>Whether the start-up routine went on to the full ingestion.\<close>

fun ran_ingestion :: "startup \<Rightarrow> bool" where
  "ran_ingestion (AutoIngested r) = True"
| "ran_ingestion other = False"

section \<open>Notions used in the statements\<close>

text \<open>A file is valid for an environment when every step of its ingestion goes through:
  it exists, its extension is supported and not skipped, extraction gives documents, the
  splitter gives at least one chunk, the store accepts the chunks whatever it holds, and
  \<^verbatim>\<open>stat\<close> answers.\<close>

definition valid_file :: "env \<Rightarrow> file_entry \<Rightarrow> bool" where
  "valid_file ev f =
     (f_exists f \<and>
      (\<exists>ftype docs texts0 sz.
         map_of SUPPORTED_EXTENSIONS (lower (f_suffix f)) = Some ftype
       \<and> lower (f_suffix f) \<notin> set SKIP_EXTENSIONS
       \<and> load_file f = Some docs
       \<and> split_documents ev docs = Inr texts0 \<and> texts0 \<noteq> []
       \<and> (\<forall>vs. \<exists>vs'. add_documents ev vs (map (stamp f ftype) texts0) = Inr vs')
       \<and> f_stat_size f = Inr sz))"

text \<open>The relevance strings of the hits among the results, in order.\<close>

fun relevances :: "search_result list \<Rightarrow> string list" where
  "relevances [] = []"
| "relevances (Hit h # rs) = relevance_score h # relevances rs"
| "relevances (Notice c src # rs) = relevances rs"

text \<open>The effect on the loop's state of one more file that fails without a message.\<close>

definition one_more_failure :: "string \<Rightarrow> batch \<times> engine \<Rightarrow> batch \<times> engine" where
  "one_more_failure x bs =
     ((fst bs)\<lparr>processed_files := insert x (processed_files (fst bs)),
               fail_count := fail_count (fst bs) + 1\<rparr>, snd bs)"

section \<open>Concrete inputs\<close>

text \<open>A splitter that returns every document as one chunk, a store that appends, an
  engine with an empty store and an empty ledger, and a few files.\<close>

definition plain_env :: env where
  "plain_env =
     \<lparr>split_documents = (\<lambda>docs. Inr docs),
      add_documents = (\<lambda>vs texts. Inr (vs @ texts)),
      similarity_search_with_score =
        (\<lambda>vs query k. Inr (take (nat k) (map (\<lambda>d. (d, 1 / 4)) vs)))\<rparr>"

definition fresh_engine :: engine where
  "fresh_engine = \<lparr>vectorstore = Some [], ingested_files = []\<rparr>"

definition text_file :: "string \<Rightarrow> string \<Rightarrow> string \<Rightarrow> file_entry" where
  "text_file name ext text =
     \<lparr>f_name = name, f_path = ''kb/'' @ name, f_resolved = ''/home/kb/'' @ name,
      f_suffix = ext, f_exists = True, f_stat_size = Inr (length text),
      f_read = Inr text, f_pdf = Inl (Exception ''not a PDF'')\<rparr>"

definition pdf_file :: "string \<Rightarrow> nat \<Rightarrow> string list \<Rightarrow> file_entry" where
  "pdf_file name st_size pages =
     \<lparr>f_name = name, f_path = ''kb/'' @ name, f_resolved = ''/home/kb/'' @ name,
      f_suffix = ''.pdf'', f_exists = True, f_stat_size = Inr st_size,
      f_read = Inl (Exception ''not text''),
      f_pdf = Inr (map (\<lambda>p. \<lparr>page_content = p,
                                 metadata = [(''source'', MStr (''kb/'' @ name))]\<rparr>) pages)\<rparr>"

definition binary_file :: "string \<Rightarrow> string \<Rightarrow> nat \<Rightarrow> file_entry" where
  "binary_file name ext st_size =
     \<lparr>f_name = name, f_path = ''kb/'' @ name, f_resolved = ''/home/kb/'' @ name,
      f_suffix = ext, f_exists = True, f_stat_size = Inr st_size,
      f_read = Inr [], f_pdf = Inl (Exception ''not a PDF'')\<rparr>"

text \<open>Three Python files, two PNG images and a PDF of 50 bytes, one level deep.\<close>

definition mixed_directory :: path_target where
  "mixed_directory =
     Directory
       [FileNode (text_file ''a.py'' ''.py'' ''print(1234567)''),
        FileNode (text_file ''b.py'' ''.py'' ''print(2345678)''),
        FileNode (binary_file ''logo.png'' ''.png'' 2048),
        DirNode ''sub''
          [FileNode (text_file ''c.py'' ''.py'' ''print(3456789)''),
           FileNode (binary_file ''photo.PNG'' ''.PNG'' 4096),
           FileNode (pdf_file ''stub.pdf'' 50 [])]]"

text \<open>A readable source file whose \<^verbatim>\<open>stat\<close> raises.\<close>

definition vanishing_file :: file_entry where
  "vanishing_file =
     (text_file ''gone.py'' ''.py'' ''print(1234567)'')
       \<lparr>f_stat_size := Inl (Exception ''[Errno 2] No such file or directory'')\<rparr>"

text \<open>A scanned PDF without a text layer, a PDF with one page of text, a text file that
  cannot be opened and a PDF the parser rejects.\<close>

definition scanned_pdf :: file_entry where
  "scanned_pdf = pdf_file ''scan.pdf'' 48213 [''  '', ''- 2 -'', [CHR 0x0C]]"

definition manual_pdf :: file_entry where
  "manual_pdf =
     pdf_file ''manual.pdf'' 48213
       [''  '', ''The timer peripheral counts clock ticks and raises an interrupt on overflow.'']"

definition unreadable_file :: file_entry where
  "unreadable_file =
     (text_file ''locked.txt'' ''.txt'' [])
       \<lparr>f_read := Inl (Exception ''[Errno 13] Permission denied'')\<rparr>"

definition broken_pdf :: file_entry where
  "broken_pdf =
     (pdf_file ''broken.pdf'' 48213 [])\<lparr>f_pdf := Inl (Exception ''EOF marker not found'')\<rparr>"

text \<open>A store of four chunks, a distance that puts two of them further than 1 from
  every query, and an environment whose index is the Corpus Index with that distance.\<close>

definition chunk :: "string \<Rightarrow> string \<Rightarrow> document" where
  "chunk name body =
     \<lparr>page_content = body,
      metadata = [(''source'', MStr (''kb/'' @ name)), (''source_file'', MStr name),
                  (''source_path'', MStr (''kb/'' @ name)), (''file_type'', MStr ''Markdown''),
                  (''chunk_size'', MInt (int (length body)))]\<rparr>"

definition stocked_engine :: engine where
  "stocked_engine =
     \<lparr>vectorstore =
        Some [chunk ''i2c.md'' ''I2C needs pull-up resistors.'',
              chunk ''spi.md'' ''SPI is full duplex.'',
              chunk ''timers.md'' ''Timer 1 is a 16-bit counter.'',
              chunk ''uart.md'' ''The UART shifts bits out LSB first.''],
      ingested_files = []\<rparr>"

definition topic_distance :: "string \<Rightarrow> document \<Rightarrow> rat" where
  "topic_distance query doc =
     (case map_of [(MStr ''timers.md'', 1 / 10), (MStr ''uart.md'', 2 / 5), (MStr ''spi.md'', 3 / 2)]
             (meta_get (metadata doc) ''source_file'' (MStr ''Unknown'')) of
        Some d \<Rightarrow> d
      | None \<Rightarrow> 7 / 4)"

definition stocked_env :: env where
  "stocked_env = plain_env\<lparr>similarity_search_with_score := corpus_query topic_distance None\<rparr>"

text \<open>A text file of two bytes, a splitter that returns no chunk, and a directory with two
  sources, an unreadable text file and an image.\<close>

definition tiny_file :: file_entry where
  "tiny_file = text_file ''tiny.txt'' ''.txt'' ''hi''"

definition empty_split_env :: env where
  "empty_split_env = plain_env\<lparr>split_documents := (\<lambda>docs. Inr [])\<rparr>"




definition name_too_long :: exn where
  "name_too_long = Exception ''[Errno 36] File name too long''"

definition stale_record :: ingestion_record where
  "stale_record = \<lparr>r_path = ''old/a.py'', r_type = ''Text File'', r_chunks = 7, r_size = 9000\<rparr>"

definition long_name :: string where
  "long_name = replicate 5000 (CHR ''a'')"

text \<open>An engine whose ledger holds an entry from an earlier ingestion of another \<^verbatim>\<open>a.py\<close>.\<close>

definition stale_engine :: engine where
  "stale_engine = fresh_engine\<lparr>ingested_files := [(''a.py'', stale_record)]\<rparr>"

section \<open>Properties\<close>

subsection \<open>Evaluating \<^const>\<open>lower\<close>\<close>

lemma lower_upper_png: "lower ''.PNG'' = ''.png''"
  by code_simp

lemma lower_fixed:
  "lower ''.py'' = ''.py''" "lower ''.png'' = ''.png''" "lower ''.pdf'' = ''.pdf''"
  "lower ''.txt'' = ''.txt''" "lower ''.md'' = ''.md''" "lower ''.idx'' = ''.idx''"
  by (simp_all add: lower_def lower_char_def)

subsection \<open>The extension tables\<close>

lemma in_supported_iff:
  "e \<in> fst ` set SUPPORTED_EXTENSIONS \<longleftrightarrow> map_of SUPPORTED_EXTENSIONS e \<noteq> None"
  by (simp add: map_of_eq_None_iff)

subsection \<open>The dry run\<close>

lemma scan_mixed_directory:
  "scan_directory ''kb'' mixed_directory True =
     Inr (ScanStats
       \<lparr>directory = ''kb'',
        files_by_type =
          [(''Python Code'', \<lparr>ts_count = 3, ts_size_mb = 21 / 524288\<rparr>),
           (''Image'', \<lparr>ts_count = 2, ts_size_mb = 3 / 512\<rparr>),
           (''PDF Document'', \<lparr>ts_count = 1, ts_size_mb = 25 / 524288\<rparr>)],
        total_files = 6, total_size_mb = 1559 / 262144\<rparr>)"
  by (simp add: scan_directory_def path_exists_def str_path_def mixed_directory_def glob_def
      text_file_def binary_file_def pdf_file_def lower_upper_png lower_fixed
      SUPPORTED_EXTENSIONS_def)

text \<open>C4: a scan of three \<^verbatim>\<open>.py\<close> files, two \<^verbatim>\<open>.png\<close> files and a PDF of 50 bytes.
  The scan leaves out only what the supported table does not list and \<^verbatim>\<open>.sb3\<close>; the
  table lists \<^verbatim>\<open>.png\<close>, so the two images are counted and the total is 6, not 4.\<close>

theorem scan_counts_png:
  "\<exists>stats. scan_directory ''kb'' mixed_directory True = Inr (ScanStats stats)
     \<and> total_files stats = 6
     \<and> map_of (files_by_type stats) ''Image'' = Some \<lparr>ts_count = 2, ts_size_mb = 3 / 512\<rparr>
     \<and> map_of (files_by_type stats) ''PDF Document''
           = Some \<lparr>ts_count = 1, ts_size_mb = 25 / 524288\<rparr>"
  by (simp add: scan_mixed_directory)

subsection \<open>The ledger\<close>

text \<open>C10: whenever \<^verbatim>\<open>add_knowledge\<close> reports failure, for whichever reason, the ledger
  after the call is the ledger before it. The ledger is written in one place only,
  after the store accepted the chunks.\<close>

theorem ledger_unchanged_on_failure:
  "\<not> fst (fst (add_knowledge ev s f)) \<Longrightarrow>
   ingested_files (snd (add_knowledge ev s f)) = ingested_files s"
  by (auto simp: add_knowledge_def Let_def split: option.splits sum.splits if_splits)

theorem ledger_unchanged_on_failure_witness:
  "\<not> fst (fst (add_knowledge plain_env fresh_engine vanishing_file))
   \<and> vectorstore (snd (add_knowledge plain_env fresh_engine vanishing_file)) \<noteq> Some []
   \<and> ingested_files (snd (add_knowledge plain_env fresh_engine vanishing_file)) = []"
proof -
  have failed: "\<not> fst (fst (add_knowledge plain_env fresh_engine vanishing_file))"
    by code_simp
  have stored: "vectorstore (snd (add_knowledge plain_env fresh_engine vanishing_file)) \<noteq> Some []"
    by code_simp
  from failed stored ledger_unchanged_on_failure [OF failed]
  show ?thesis by (simp add: fresh_engine_def)
qed

subsection \<open>Extraction\<close>

lemma candidate_cases:
  "candidate f \<Longrightarrow>
     lower (f_suffix f) \<notin> set SKIP_EXTENSIONS \<and> map_of SUPPORTED_EXTENSIONS (lower (f_suffix f)) \<noteq> None"
  by (simp add: candidate_def Let_def split: if_splits)

lemma supported_not_skipped:
  "e \<notin> set SKIP_EXTENSIONS \<Longrightarrow> map_of SUPPORTED_EXTENSIONS e \<noteq> None \<Longrightarrow>
   e = ''.pdf'' \<or> e \<in> set text_extensions \<or> e \<in> set code_extensions"
  unfolding SKIP_EXTENSIONS_def SUPPORTED_EXTENSIONS_def text_extensions_def code_extensions_def
  by (simp split: if_splits)

lemma pdf_candidate: "''.pdf'' \<notin> set SKIP_EXTENSIONS" "map_of SUPPORTED_EXTENSIONS ''.pdf'' = Some ''PDF Document''"
  by (simp_all add: SKIP_EXTENSIONS_def SUPPORTED_EXTENSIONS_def)

lemma load_file_pdf:
  "lower (f_suffix f) = ''.pdf'' \<Longrightarrow>
   load_file f =
     (case f_stat_size f of
        Inl e \<Rightarrow> None
      | Inr st_size \<Rightarrow>
          if st_size < 100 then None
          else (case f_pdf f of
                  Inl e \<Rightarrow> None
                | Inr docs \<Rightarrow>
                    if list_all (\<lambda>doc. length (strip (page_content doc)) < 50) docs
                    then None else Some docs))"
  by (auto simp: load_file_def Let_def pdf_candidate docs_or_none_def split: sum.splits)

lemma load_file_text:
  assumes "candidate f" "lower (f_suffix f) \<noteq> ''.pdf''"
  shows "load_file f =
     (case f_read f of
        Inl e \<Rightarrow> None
      | Inr body \<Rightarrow>
          if length (strip body) < 10 then None else Some [text_document f body])"
proof -
  from assms(1) have a: "lower (f_suffix f) \<notin> set SKIP_EXTENSIONS"
    and b: "map_of SUPPORTED_EXTENSIONS (lower (f_suffix f)) \<noteq> None"
    by (simp_all add: candidate_cases)
  from supported_not_skipped [OF a b] assms(2)
  have c: "lower (f_suffix f) \<in> set text_extensions \<or> lower (f_suffix f) \<in> set code_extensions"
    by blast
  show ?thesis
    unfolding load_file_def Let_def docs_or_none_def
    using a b c assms(2) by (auto split: sum.splits)
qed



lemma pdf_file_suffix: "lower (f_suffix (pdf_file name n pages)) = ''.pdf''"
  by (simp add: pdf_file_def lower_def lower_char_def)

lemma notes_candidate: "candidate (text_file ''notes.txt'' ''.txt'' body)"
  "lower (f_suffix (text_file ''notes.txt'' ''.txt'' body)) \<noteq> ''.pdf''"
  by (simp_all add: candidate_def text_file_def lower_def lower_char_def SKIP_EXTENSIONS_def SUPPORTED_EXTENSIONS_def)

text \<open>C6: \<^verbatim>\<open>_load_file\<close> returns \<^verbatim>\<open>None\<close> for a PDF under 100 bytes, for a PDF all of
  whose pages strip to fewer than 50 characters, and for a text, markup, source or
  configuration file whose content strips to fewer than 10 characters. When the reads
  succeed these are the only such cases: otherwise the PDF's pages, or the one document
  of the text file, are returned. A read that raises gives \<^verbatim>\<open>None\<close> as well, so
  nothing is raised to the caller.\<close>

theorem load_file_noise:
  "(lower (f_suffix f) = ''.pdf'' \<and> f_stat_size f = Inr n \<and> n < 100 \<longrightarrow> load_file f = None)
   \<and> (lower (f_suffix f) = ''.pdf'' \<and> f_pdf f = Inr pages
        \<and> list_all (\<lambda>doc. length (strip (page_content doc)) < 50) pages
        \<longrightarrow> load_file f = None)
   \<and> (candidate f \<and> lower (f_suffix f) \<noteq> ''.pdf'' \<and> f_read f = Inr body
        \<and> length (strip body) < 10 \<longrightarrow> load_file f = None)
   \<and> (lower (f_suffix f) = ''.pdf'' \<and> f_stat_size f = Inr n \<and> \<not> n < 100 \<and> f_pdf f = Inr pages
        \<and> \<not> list_all (\<lambda>doc. length (strip (page_content doc)) < 50) pages
        \<longrightarrow> load_file f = Some pages)
   \<and> (candidate f \<and> lower (f_suffix f) \<noteq> ''.pdf'' \<and> f_read f = Inr body
        \<and> \<not> length (strip body) < 10 \<longrightarrow> load_file f = Some [text_document f body])
   \<and> (lower (f_suffix f) = ''.pdf'' \<and> (f_stat_size f = Inl e \<or> f_pdf f = Inl e)
        \<longrightarrow> load_file f = None)
   \<and> (candidate f \<and> lower (f_suffix f) \<noteq> ''.pdf'' \<and> f_read f = Inl e
        \<longrightarrow> load_file f = None)"
proof -
  have pdf: "lower (f_suffix f) = ''.pdf'' \<Longrightarrow>
     (f_stat_size f = Inr n \<and> n < 100 \<longrightarrow> load_file f = None)
   \<and> (f_pdf f = Inr pages \<and> list_all (\<lambda>doc. length (strip (page_content doc)) < 50) pages
        \<longrightarrow> load_file f = None)
   \<and> (f_stat_size f = Inr n \<and> \<not> n < 100 \<and> f_pdf f = Inr pages
        \<and> \<not> list_all (\<lambda>doc. length (strip (page_content doc)) < 50) pages
        \<longrightarrow> load_file f = Some pages)
   \<and> (f_stat_size f = Inl e \<or> f_pdf f = Inl e \<longrightarrow> load_file f = None)"
    by (auto simp: load_file_pdf split: sum.splits)
  have textual: "candidate f \<Longrightarrow> lower (f_suffix f) \<noteq> ''.pdf'' \<Longrightarrow>
     (f_read f = Inr body \<and> length (strip body) < 10 \<longrightarrow> load_file f = None)
   \<and> (f_read f = Inr body \<and> \<not> length (strip body) < 10
        \<longrightarrow> load_file f = Some [text_document f body])
   \<and> (f_read f = Inl e \<longrightarrow> load_file f = None)"
    by (auto simp: load_file_text)
  from pdf textual show ?thesis by blast
qed

theorem load_file_noise_witness:
  "load_file (pdf_file ''stub.pdf'' 50 []) = None
   \<and> load_file scanned_pdf = None
   \<and> load_file (text_file ''notes.txt'' ''.txt'' (''h'' @ [CHR 0x0A])) = None
   \<and> load_file manual_pdf = Some (case f_pdf manual_pdf of Inr pages \<Rightarrow> pages)
   \<and> load_file (text_file ''notes.txt'' ''.txt'' '' Wire the sensor to pin 4. '') \<noteq> None
   \<and> load_file broken_pdf = None
   \<and> load_file unreadable_file = None"
proof -
  have small: "load_file (pdf_file ''stub.pdf'' 50 []) = None"
    using load_file_noise [where f = "pdf_file ''stub.pdf'' 50 []" and n = 50]
    by (simp add: pdf_file_suffix) (simp add: pdf_file_def)
  have scanned: "load_file scanned_pdf = None"
    using load_file_noise [where f = scanned_pdf and pages = "case f_pdf scanned_pdf of Inr pages \<Rightarrow> pages"]
    by (simp add: scanned_pdf_def pdf_file_suffix) (simp add: pdf_file_def strip_def isspace_def)
  have short: "load_file (text_file ''notes.txt'' ''.txt'' (''h'' @ [CHR 0x0A])) = None"
    using load_file_noise [where f = "text_file ''notes.txt'' ''.txt'' (''h'' @ [CHR 0x0A])"
                             and body = "''h'' @ [CHR 0x0A]"]
    by (simp add: notes_candidate) (simp add: text_file_def strip_def isspace_def)
  have manual: "load_file manual_pdf = Some (case f_pdf manual_pdf of Inr pages \<Rightarrow> pages)"
    using load_file_noise [where f = manual_pdf and n = 48213
                             and pages = "case f_pdf manual_pdf of Inr pages \<Rightarrow> pages"]
    by (simp add: manual_pdf_def pdf_file_suffix) (simp add: pdf_file_def strip_def isspace_def)
  have long: "load_file (text_file ''notes.txt'' ''.txt'' '' Wire the sensor to pin 4. '') \<noteq> None"
    using load_file_noise [where f = "text_file ''notes.txt'' ''.txt'' '' Wire the sensor to pin 4. ''"
                             and body = "'' Wire the sensor to pin 4. ''"]
    by (simp add: notes_candidate) (simp add: text_file_def strip_def isspace_def)
  have broken: "load_file broken_pdf = None"
    using load_file_noise [where f = broken_pdf and e = "Exception ''EOF marker not found''"]
    by (simp add: broken_pdf_def pdf_file_def lower_def lower_char_def)
  have unreadable: "load_file unreadable_file = None"
    using load_file_noise [where f = unreadable_file and e = "Exception ''[Errno 13] Permission denied''"]
    by (simp add: unreadable_file_def text_file_def candidate_def lower_def lower_char_def
          SKIP_EXTENSIONS_def SUPPORTED_EXTENSIONS_def)
  from small scanned short manual long broken unreadable show ?thesis by blast
qed

subsection \<open>What a successful ingestion does\<close>

lemma add_knowledge_success:
  assumes "fst (fst (add_knowledge ev s f))"
  shows "\<exists>ftype docs texts0 vs vs' sz.
           f_exists f
         \<and> map_of SUPPORTED_EXTENSIONS (lower (f_suffix f)) = Some ftype
         \<and> lower (f_suffix f) \<notin> set SKIP_EXTENSIONS
         \<and> load_file f = Some docs
         \<and> split_documents ev docs = Inr texts0 \<and> texts0 \<noteq> []
         \<and> vectorstore s = Some vs
         \<and> add_documents ev vs (map (stamp f ftype) texts0) = Inr vs'
         \<and> f_stat_size f = Inr sz
         \<and> snd (add_knowledge ev s f) =
             s\<lparr>vectorstore := Some vs',
               ingested_files :=
                 AList.update (f_name f)
                   \<lparr>r_path = f_path f, r_type = ftype,
                    r_chunks = length texts0, r_size = sz\<rparr>
                   (ingested_files s)\<rparr>"
  using assms
  by (auto simp: add_knowledge_def Let_def split: option.splits sum.splits if_splits)

lemma one_entry_per_key:
  "distinct (map fst al) \<Longrightarrow> k \<in> fst ` set al \<Longrightarrow>
   length (filter (\<lambda>e. fst e = k) al) = 1"
proof (induction al)
  case Nil
  then show ?case by simp
next
  case (Cons a al)
  show ?case
  proof (cases "fst a = k")
    case True
    with Cons.prems have "k \<notin> fst ` set al" by auto
    then have "filter (\<lambda>e. fst e = k) al = []"
      by (auto simp: filter_empty_conv)
    with True show ?thesis by simp
  next
    case False
    with Cons show ?thesis by auto
  qed
qed

subsection \<open>Batch ingestion\<close>

lemma contains_prefix: "prefix needle hay \<Longrightarrow> contains needle hay"
  by (cases hay) simp_all

lemma no_content_message:
  "contains ''No content extracted'' (''No content extracted from '' @ name)"
  by (rule contains_prefix) simp

lemma ingest_loop_append:
  "ingest_loop ev (xs @ ys) bs = ingest_loop ev ys (ingest_loop ev xs bs)"
  by (induction xs arbitrary: bs) simp_all

lemma candidate_supported:
  "candidate f \<Longrightarrow>
     lower (f_suffix f) \<notin> set SKIP_EXTENSIONS \<and> (\<exists>ftype. map_of SUPPORTED_EXTENSIONS (lower (f_suffix f)) = Some ftype)"
  by (auto simp: candidate_def Let_def split: if_splits)

lemma add_knowledge_no_content:
  assumes "f_exists f" "candidate f" "load_file f = None"
  shows "add_knowledge ev s f = ((False, ''No content extracted from '' @ f_name f), s)"
  using assms candidate_supported [OF assms(2)]
  by (auto simp: add_knowledge_def Let_def)

lemma add_knowledge_valid:
  assumes "valid_file ev f" "vectorstore s \<noteq> None"
  shows "fst (fst (add_knowledge ev s f)) \<and> vectorstore (snd (add_knowledge ev s f)) \<noteq> None"
proof -
  from assms(1) obtain ftype docs texts0 sz where
    a: "f_exists f" "map_of SUPPORTED_EXTENSIONS (lower (f_suffix f)) = Some ftype"
       "lower (f_suffix f) \<notin> set SKIP_EXTENSIONS" "load_file f = Some docs"
       "split_documents ev docs = Inr texts0" "texts0 \<noteq> []" "f_stat_size f = Inr sz"
    and b: "\<forall>vs. \<exists>vs'. add_documents ev vs (map (stamp f ftype) texts0) = Inr vs'"
    unfolding valid_file_def by blast
  from assms(2) obtain vs where c: "vectorstore s = Some vs" by auto
  from b obtain vs' where d: "add_documents ev vs (map (stamp f ftype) texts0) = Inr vs'" by blast
  from a c d show ?thesis
    by (simp add: add_knowledge_def Let_def)
qed

lemma step_no_content:
  assumes "f_exists f" "candidate f" "load_file f = None" "f_resolved f \<notin> processed_files b"
  shows "ingest_step ev (b, s) f =
           (b\<lparr>processed_files := insert (f_resolved f) (processed_files b),
              fail_count := fail_count b + 1\<rparr>, s)"
  using assms(4)
  by (simp add: ingest_step_def Let_def add_knowledge_no_content [OF assms(1-3)] no_content_message)


lemma step_total:
  assumes "f_resolved f \<notin> processed_files b"
  shows "success_count (fst (ingest_step ev (b, s) f)) + fail_count (fst (ingest_step ev (b, s) f))
           = success_count b + fail_count b + 1
         \<and> processed_files (fst (ingest_step ev (b, s) f)) = insert (f_resolved f) (processed_files b)"
  using assms by (simp add: ingest_step_def Let_def)

lemma loop_total:
  "distinct (map f_resolved fs) \<Longrightarrow> f_resolved ` set fs \<inter> processed_files (fst bs) = {} \<Longrightarrow>
   success_count (fst (ingest_loop ev fs bs)) + fail_count (fst (ingest_loop ev fs bs))
     = success_count (fst bs) + fail_count (fst bs) + length fs"
proof (induction fs arbitrary: bs)
  case Nil
  then show ?case by simp
next
  case (Cons f fs)
  obtain b s where bs: "bs = (b, s)" by (cases bs)
  from Cons.prems bs have fresh: "f_resolved f \<notin> processed_files b" by auto
  note st = step_total [OF fresh, of ev s]
  have disj: "f_resolved ` set fs \<inter> processed_files (fst (ingest_step ev (b, s) f)) = {}"
    using Cons.prems bs st by auto
  from Cons.prems have dist: "distinct (map f_resolved fs)" by simp
  from Cons.IH [OF dist disj] st bs show ?case by simp
qed



lemma loop_processed:
  "processed_files (fst (ingest_loop ev fs bs)) = processed_files (fst bs) \<union> f_resolved ` set fs"
proof (induction fs arbitrary: bs)
  case Nil
  then show ?case by simp
next
  case (Cons f fs)
  have "processed_files (fst (ingest_step ev bs f)) = insert (f_resolved f) (processed_files (fst bs))"
    by (auto simp: ingest_step_def Let_def)
  with Cons.IH [of "ingest_step ev bs f"] show ?case by auto
qed

lemma step_shift:
  "f_resolved g \<noteq> x \<Longrightarrow>
   ingest_step ev (one_more_failure x bs) g = one_more_failure x (ingest_step ev bs g)"
  by (auto simp: ingest_step_def one_more_failure_def Let_def insert_commute)

lemma loop_shift:
  "x \<notin> f_resolved ` set fs \<Longrightarrow>
   ingest_loop ev fs (one_more_failure x bs) = one_more_failure x (ingest_loop ev fs bs)"
proof (induction fs arbitrary: bs)
  case Nil
  then show ?case by simp
next
  case (Cons g fs)
  from Cons.prems have ne: "f_resolved g \<noteq> x" and rest: "x \<notin> f_resolved ` set fs" by auto
  from Cons.IH [OF rest] step_shift [OF ne] show ?case by simp
qed

lemma py_file_valid:
  "\<not> length (strip body) < 10 \<Longrightarrow> valid_file plain_env (text_file name ''.py'' body)"
  unfolding valid_file_def
  by (simp add: text_file_def lower_fixed load_file_def Let_def SKIP_EXTENSIONS_def
        SUPPORTED_EXTENSIONS_def text_extensions_def code_extensions_def docs_or_none_def
        plain_env_def)

lemma py_file_candidate: "candidate (text_file name ''.py'' body)"
  by (simp add: candidate_def text_file_def lower_fixed SKIP_EXTENSIONS_def SUPPORTED_EXTENSIONS_def)

lemma long_enough:
  "\<not> length (strip ''print(1234567)'') < 10" "\<not> length (strip ''print(2345678)'') < 10"
  by (simp_all add: strip_def isspace_def)


lemma tiny_facts:
  "f_exists tiny_file" "candidate tiny_file" "load_file tiny_file = None"
  by (simp_all add: tiny_file_def text_file_def candidate_def load_file_def Let_def
        lower_fixed SKIP_EXTENSIONS_def SUPPORTED_EXTENSIONS_def text_extensions_def
        strip_def isspace_def)


text \<open>C3, as stated: a candidate whose extraction yields nothing does not add to the
  failure count. It does: a directory holding only a two-byte text file gives no
  success, one failure and no error message.\<close>

theorem no_content_counted_as_failure:
  "load_file tiny_file = None
   \<and> fst (ingest_directory plain_env fresh_engine ''kb'' (Directory [FileNode tiny_file]) True)
       = Inr (0, 1, [])"
proof -
  have af: "all_files (Directory [FileNode tiny_file]) True = Inr [tiny_file]"
    by (simp add: all_files_def glob_def tiny_facts)
  have ak: "add_knowledge plain_env fresh_engine tiny_file
              = ((False, ''No content extracted from tiny.txt''), fresh_engine)"
    using add_knowledge_no_content [OF tiny_facts, of plain_env fresh_engine]
    by (simp add: tiny_file_def text_file_def)
  have "fst (ingest_directory plain_env fresh_engine ''kb'' (Directory [FileNode tiny_file]) True)
       = Inr (0, 1, [])"
    by (simp add: ingest_directory_def not_found_def path_exists_def path_is_dir_def af
          ingest_step_def Let_def ak empty_batch_def)
  with tiny_facts(3) show ?thesis by blast
qed

text \<open>C3, amended: a candidate that exists, was not processed before and yields no
  documents adds one to \<^verbatim>\<open>fail_count\<close> and nothing else: no success, no error message,
  no change of the engine. In a batch, the run with such a file differs from the run
  without it by that one failure only. A candidate that yields documents but no chunk
  is counted as one failure as well.\<close>

theorem no_content_is_a_failure:
  assumes fresh: "f_resolved f \<notin> processed_files b"
    and ex: "f_exists f" and cand: "candidate f"
  shows "(load_file f = None \<longrightarrow>
            ingest_step ev (b, s) f =
              (b\<lparr>processed_files := insert (f_resolved f) (processed_files b),
                 fail_count := fail_count b + 1\<rparr>, s))
       \<and> (load_file f = None \<and> f_resolved f \<notin> f_resolved ` set pre
            \<and> f_resolved f \<notin> f_resolved ` set post \<longrightarrow>
            success_count (fst (ingest_loop ev (pre @ f # post) (b, s)))
              = success_count (fst (ingest_loop ev (pre @ post) (b, s)))
          \<and> fail_count (fst (ingest_loop ev (pre @ f # post) (b, s)))
              = fail_count (fst (ingest_loop ev (pre @ post) (b, s))) + 1
          \<and> errors (fst (ingest_loop ev (pre @ f # post) (b, s)))
              = errors (fst (ingest_loop ev (pre @ post) (b, s)))
          \<and> snd (ingest_loop ev (pre @ f # post) (b, s))
              = snd (ingest_loop ev (pre @ post) (b, s)))
       \<and> (\<forall>docs. load_file f = Some docs \<and> split_documents ev docs = Inr [] \<longrightarrow>
            success_count (fst (ingest_step ev (b, s) f)) = success_count b
          \<and> fail_count (fst (ingest_step ev (b, s) f)) = fail_count b + 1
          \<and> snd (ingest_step ev (b, s) f) = s)"
proof -
  have step: "load_file f = None \<longrightarrow>
            ingest_step ev (b, s) f =
              (b\<lparr>processed_files := insert (f_resolved f) (processed_files b),
                 fail_count := fail_count b + 1\<rparr>, s)"
    using step_no_content [OF ex cand _ fresh] by blast
  have batch: "load_file f = None \<and> f_resolved f \<notin> f_resolved ` set pre
            \<and> f_resolved f \<notin> f_resolved ` set post \<longrightarrow>
            success_count (fst (ingest_loop ev (pre @ f # post) (b, s)))
              = success_count (fst (ingest_loop ev (pre @ post) (b, s)))
          \<and> fail_count (fst (ingest_loop ev (pre @ f # post) (b, s)))
              = fail_count (fst (ingest_loop ev (pre @ post) (b, s))) + 1
          \<and> errors (fst (ingest_loop ev (pre @ f # post) (b, s)))
              = errors (fst (ingest_loop ev (pre @ post) (b, s)))
          \<and> snd (ingest_loop ev (pre @ f # post) (b, s))
              = snd (ingest_loop ev (pre @ post) (b, s))"
  proof
    assume h: "load_file f = None \<and> f_resolved f \<notin> f_resolved ` set pre
            \<and> f_resolved f \<notin> f_resolved ` set post"
    let ?mid = "ingest_loop ev pre (b, s)"
    from h fresh have fresh': "f_resolved f \<notin> processed_files (fst ?mid)"
      by (simp add: loop_processed)
    from h have none: "load_file f = None" and post: "f_resolved f \<notin> f_resolved ` set post"
      by simp_all
    have "ingest_step ev ?mid f = one_more_failure (f_resolved f) ?mid"
      using step_no_content [OF ex cand none fresh', of ev "snd ?mid"]
      by (simp add: one_more_failure_def)
    then have eq: "ingest_loop ev (pre @ f # post) (b, s)
           = one_more_failure (f_resolved f) (ingest_loop ev (pre @ post) (b, s))"
      by (simp add: ingest_loop_append loop_shift [OF post])
    show "success_count (fst (ingest_loop ev (pre @ f # post) (b, s)))
              = success_count (fst (ingest_loop ev (pre @ post) (b, s)))
          \<and> fail_count (fst (ingest_loop ev (pre @ f # post) (b, s)))
              = fail_count (fst (ingest_loop ev (pre @ post) (b, s))) + 1
          \<and> errors (fst (ingest_loop ev (pre @ f # post) (b, s)))
              = errors (fst (ingest_loop ev (pre @ post) (b, s)))
          \<and> snd (ingest_loop ev (pre @ f # post) (b, s))
              = snd (ingest_loop ev (pre @ post) (b, s))"
      unfolding eq by (simp add: one_more_failure_def)
  qed
  have chunks: "\<forall>docs. load_file f = Some docs \<and> split_documents ev docs = Inr [] \<longrightarrow>
            success_count (fst (ingest_step ev (b, s) f)) = success_count b
          \<and> fail_count (fst (ingest_step ev (b, s) f)) = fail_count b + 1
          \<and> snd (ingest_step ev (b, s) f) = s"
  proof (intro allI impI)
    fix docs
    assume h: "load_file f = Some docs \<and> split_documents ev docs = Inr []"
    from candidate_supported [OF cand] obtain ftype where
      sup: "map_of SUPPORTED_EXTENSIONS (lower (f_suffix f)) = Some ftype"
      and nskip: "lower (f_suffix f) \<notin> set SKIP_EXTENSIONS" by blast
    from h ex sup nskip
    have "add_knowledge ev s f = ((False, ''No text chunks created from '' @ f_name f), s)"
      by (simp add: add_knowledge_def Let_def)
    with fresh
    show "success_count (fst (ingest_step ev (b, s) f)) = success_count b
          \<and> fail_count (fst (ingest_step ev (b, s) f)) = fail_count b + 1
          \<and> snd (ingest_step ev (b, s) f) = s"
      by (simp add: ingest_step_def Let_def)
  qed
  from step batch chunks show ?thesis by (intro conjI)
qed

theorem no_content_is_a_failure_witness:
  "ingest_step plain_env (empty_batch, fresh_engine) tiny_file =
     (empty_batch\<lparr>processed_files := insert (f_resolved tiny_file) (processed_files empty_batch),
                  fail_count := fail_count empty_batch + 1\<rparr>, fresh_engine)
   \<and> fail_count (fst (ingest_loop plain_env
          ([text_file ''a.py'' ''.py'' ''print(1234567)''] @ tiny_file
             # [text_file ''b.py'' ''.py'' ''print(2345678)''])
          (empty_batch, fresh_engine)))
      = fail_count (fst (ingest_loop plain_env
          ([text_file ''a.py'' ''.py'' ''print(1234567)'']
             @ [text_file ''b.py'' ''.py'' ''print(2345678)''])
          (empty_batch, fresh_engine))) + 1
   \<and> errors (fst (ingest_loop plain_env
          ([text_file ''a.py'' ''.py'' ''print(1234567)''] @ tiny_file
             # [text_file ''b.py'' ''.py'' ''print(2345678)''])
          (empty_batch, fresh_engine)))
      = errors (fst (ingest_loop plain_env
          ([text_file ''a.py'' ''.py'' ''print(1234567)'']
             @ [text_file ''b.py'' ''.py'' ''print(2345678)''])
          (empty_batch, fresh_engine)))
   \<and> fail_count (fst (ingest_step empty_split_env (empty_batch, fresh_engine)
                         (text_file ''a.py'' ''.py'' ''print(1234567)''))) = 1"
proof -
  have fresh: "f_resolved tiny_file \<notin> processed_files empty_batch"
    by (simp add: empty_batch_def)
  have apart: "f_resolved tiny_file \<notin> f_resolved ` set [text_file ''a.py'' ''.py'' ''print(1234567)'']"
    "f_resolved tiny_file \<notin> f_resolved ` set [text_file ''b.py'' ''.py'' ''print(2345678)'']"
    by (simp_all add: tiny_file_def text_file_def)
  note tiny = no_content_is_a_failure
      [OF fresh tiny_facts(1) tiny_facts(2), of plain_env fresh_engine
         "[text_file ''a.py'' ''.py'' ''print(1234567)'']"
         "[text_file ''b.py'' ''.py'' ''print(2345678)'']"]
  let ?a = "text_file ''a.py'' ''.py'' ''print(1234567)''"
  have fresh_a: "f_resolved ?a \<notin> processed_files empty_batch"
    by (simp add: empty_batch_def)
  have ex_a: "f_exists ?a" by (simp add: text_file_def)
  have load_a: "load_file ?a = Some [text_document ?a ''print(1234567)'']"
    by (simp add: text_file_def lower_fixed load_file_def Let_def SKIP_EXTENSIONS_def
        SUPPORTED_EXTENSIONS_def text_extensions_def code_extensions_def docs_or_none_def
        strip_def isspace_def)
  have split_a: "split_documents empty_split_env [text_document ?a ''print(1234567)''] = Inr []"
    by (simp add: empty_split_env_def)
  note zero = no_content_is_a_failure
      [OF fresh_a ex_a py_file_candidate, of empty_split_env fresh_engine]
  from zero load_a split_a
  have z: "fail_count (fst (ingest_step empty_split_env (empty_batch, fresh_engine) ?a)) = 1"
    by (simp add: empty_batch_def)
  from tiny tiny_facts(3) apart z show ?thesis by blast
qed

subsection \<open>The two tables in the methods\<close>

lemma not_unsupported_prefix:
  "\<not> prefix ''Unsupported file type'' (''Binary file skipped: '' @ x)"
  "\<not> prefix ''Unsupported file type'' (''No content extracted from '' @ x)"
  "\<not> prefix ''Unsupported file type'' (''No text chunks created from '' @ x)"
  "\<not> prefix ''Unsupported file type'' ''Vector store not available''"
  "\<not> prefix ''Unsupported file type'' (error_message e)"
  "\<not> prefix ''Unsupported file type'' (added_message n name ftype)"
  by (simp_all add: error_message_def added_message_def check_mark_def split: exn.splits)

lemma never_reported_unsupported:
  assumes "f_exists f" "lower (f_suffix f) \<in> fst ` set SUPPORTED_EXTENSIONS"
  shows "\<not> prefix ''Unsupported file type'' (snd (fst (add_knowledge ev s f)))"
proof -
  from assms(2) obtain ftype where
    sup: "map_of SUPPORTED_EXTENSIONS (lower (f_suffix f)) = Some ftype"
    by (auto simp: in_supported_iff)
  show ?thesis
    unfolding add_knowledge_def Let_def
    using assms(1) sup
    by (simp add: not_unsupported_prefix split: option.splits sum.splits)
qed

text \<open>C2, as stated: the skip set and the supported table are disjoint. They are not:
  \<^verbatim>\<open>.png\<close> and ten more extensions are in both.\<close>

theorem skip_and_supported_not_disjoint:
  "\<not> (set SKIP_EXTENSIONS \<inter> fst ` set SUPPORTED_EXTENSIONS = {})"
  by (simp add: SKIP_EXTENSIONS_def SUPPORTED_EXTENSIONS_def)

text \<open>C2, amended: the two tables share exactly the eleven binary extensions that the
  supported table lists under "will be skipped", and exactly \<^verbatim>\<open>.idx\<close>, \<^verbatim>\<open>.pack\<close> and
  \<^verbatim>\<open>.rev\<close> are in the skip set alone. Skip wins: a file whose lower-cased extension is
  in the skip set is no candidate of the batch and \<^verbatim>\<open>_load_file\<close> returns \<^verbatim>\<open>None\<close>
  for it; the extension of a candidate is in the supported table and not in the skip
  set; \<^verbatim>\<open>add_knowledge\<close> refuses an existing file with an extension of both tables as
  a skipped binary; and it reports no existing file with an extension of the supported
  table as an unsupported type.\<close>

theorem skip_wins_on_the_overlap:
  "set SKIP_EXTENSIONS \<inter> fst ` set SUPPORTED_EXTENSIONS =
     set [''.sb3'', ''.jpg'', ''.png'', ''.svg'', ''.webm'', ''.gz'', ''.tar'', ''.jar'',
          ''.fzz'', ''.vlw'', ''.ttf'']
   \<and> set SKIP_EXTENSIONS - fst ` set SUPPORTED_EXTENSIONS = set [''.idx'', ''.pack'', ''.rev'']
   \<and> (lower (f_suffix f) \<in> set SKIP_EXTENSIONS \<longrightarrow> \<not> candidate f \<and> load_file f = None)
   \<and> (candidate f \<longrightarrow>
         lower (f_suffix f) \<in> fst ` set SUPPORTED_EXTENSIONS
       \<and> lower (f_suffix f) \<notin> set SKIP_EXTENSIONS)
   \<and> (f_exists f \<and> lower (f_suffix f) \<in> set SKIP_EXTENSIONS \<inter> fst ` set SUPPORTED_EXTENSIONS
        \<longrightarrow> add_knowledge ev s f =
              ((False, ''Binary file skipped: '' @ lower (f_suffix f)), s))
   \<and> (f_exists f \<and> lower (f_suffix f) \<in> fst ` set SUPPORTED_EXTENSIONS
        \<longrightarrow> \<not> prefix ''Unsupported file type'' (snd (fst (add_knowledge ev s f))))"
proof -
  have overlap: "set SKIP_EXTENSIONS \<inter> fst ` set SUPPORTED_EXTENSIONS =
     set [''.sb3'', ''.jpg'', ''.png'', ''.svg'', ''.webm'', ''.gz'', ''.tar'', ''.jar'',
          ''.fzz'', ''.vlw'', ''.ttf'']"
    by (simp add: SKIP_EXTENSIONS_def SUPPORTED_EXTENSIONS_def)
  have alone: "set SKIP_EXTENSIONS - fst ` set SUPPORTED_EXTENSIONS
                 = set [''.idx'', ''.pack'', ''.rev'']"
    by (simp add: SKIP_EXTENSIONS_def SUPPORTED_EXTENSIONS_def)
  have skipped: "lower (f_suffix f) \<in> set SKIP_EXTENSIONS \<longrightarrow> \<not> candidate f \<and> load_file f = None"
    by (simp add: candidate_def load_file_def Let_def)
  have cands: "candidate f \<longrightarrow>
         lower (f_suffix f) \<in> fst ` set SUPPORTED_EXTENSIONS
       \<and> lower (f_suffix f) \<notin> set SKIP_EXTENSIONS"
    by (auto simp: candidate_def Let_def in_supported_iff split: if_splits)
  have binary: "f_exists f \<and> lower (f_suffix f) \<in> set SKIP_EXTENSIONS \<inter> fst ` set SUPPORTED_EXTENSIONS
        \<longrightarrow> add_knowledge ev s f =
              ((False, ''Binary file skipped: '' @ lower (f_suffix f)), s)"
    by (auto simp: add_knowledge_def Let_def in_supported_iff)
  have supported: "f_exists f \<and> lower (f_suffix f) \<in> fst ` set SUPPORTED_EXTENSIONS
        \<longrightarrow> \<not> prefix ''Unsupported file type'' (snd (fst (add_knowledge ev s f)))"
    using never_reported_unsupported by blast
  from overlap alone skipped cands binary supported show ?thesis by (intro conjI)
qed

theorem skip_wins_on_the_overlap_witness:
  "lower (f_suffix (binary_file ''photo.PNG'' ''.PNG'' 4096)) \<in> set SKIP_EXTENSIONS
   \<and> \<not> candidate (binary_file ''photo.PNG'' ''.PNG'' 4096)
   \<and> load_file (binary_file ''photo.PNG'' ''.PNG'' 4096) = None
   \<and> add_knowledge plain_env fresh_engine (binary_file ''photo.PNG'' ''.PNG'' 4096)
       = ((False, ''Binary file skipped: .png''), fresh_engine)
   \<and> candidate (text_file ''a.py'' ''.py'' ''print(1234567)'')
   \<and> lower (f_suffix (text_file ''a.py'' ''.py'' ''print(1234567)'')) \<notin> set SKIP_EXTENSIONS
   \<and> \<not> prefix ''Unsupported file type''
         (snd (fst (add_knowledge plain_env fresh_engine
                      (text_file ''a.py'' ''.py'' ''print(1234567)''))))"
proof -
  let ?png = "binary_file ''photo.PNG'' ''.PNG'' 4096"
  let ?py = "text_file ''a.py'' ''.py'' ''print(1234567)''"
  have ext: "lower (f_suffix ?png) = ''.png''" by (simp add: binary_file_def lower_upper_png)
  have skip: "''.png'' \<in> set SKIP_EXTENSIONS" by (simp add: SKIP_EXTENSIONS_def)
  have sup: "''.png'' \<in> fst ` set SUPPORTED_EXTENSIONS"
    by (simp add: in_supported_iff SUPPORTED_EXTENSIONS_def)
  have ex: "f_exists ?png" "f_exists ?py" by (simp_all add: binary_file_def text_file_def)
  have pyext: "lower (f_suffix ?py) = ''.py''" by (simp add: text_file_def lower_fixed)
  have pysup: "''.py'' \<in> fst ` set SUPPORTED_EXTENSIONS"
    by (simp add: in_supported_iff SUPPORTED_EXTENSIONS_def)
  from skip_wins_on_the_overlap [of ?png plain_env fresh_engine] ext skip sup ex(1)
  have png: "\<not> candidate ?png" "load_file ?png = None"
    "add_knowledge plain_env fresh_engine ?png
       = ((False, ''Binary file skipped: .png''), fresh_engine)"
    by simp_all
  from skip_wins_on_the_overlap [of ?py plain_env fresh_engine] pyext pysup ex(2)
    py_file_candidate [of "''a.py''" "''print(1234567)''"]
  have py: "lower (f_suffix ?py) \<notin> set SKIP_EXTENSIONS"
    "\<not> prefix ''Unsupported file type'' (snd (fst (add_knowledge plain_env fresh_engine ?py)))"
    by simp_all
  from ext skip png py py_file_candidate [of "''a.py''" "''print(1234567)''"]
  show ?thesis by simp
qed

subsection \<open>A missing directory\<close>

text \<open>C8, as stated: for every path that does not exist, \<^verbatim>\<open>ingest_directory\<close> returns
  its not-found report. A path with a name longer than the system allows does not exist,
  and \<^verbatim>\<open>exists()\<close> raises on it: the exception leaves \<^verbatim>\<open>ingest_directory\<close> and
  there is no report.\<close>

theorem ingest_directory_raises_on_long_name:
  "ingest_directory plain_env fresh_engine long_name (StatRaises name_too_long) True
     = (Inl name_too_long, fresh_engine)"
  by (simp add: ingest_directory_def not_found_def path_exists_def)

text \<open>C8, amended: when \<^verbatim>\<open>exists()\<close> answers no, or \<^verbatim>\<open>exists()\<close> answers yes and
  \<^verbatim>\<open>is_dir()\<close> answers no, \<^verbatim>\<open>ingest_directory\<close> returns no success, one failure and
  the single message \<^verbatim>\<open>Directory not found: <path>\<close>, and the engine is as it
  was.\<close>

theorem ingest_directory_not_found:
  "path_exists t = Inr False \<or> (path_exists t = Inr True \<and> path_is_dir t = Inr False) \<Longrightarrow>
   ingest_directory ev s directory_path t recursive =
     (Inr (0, 1, [''Directory not found: '' @ directory_path]), s)"
  by (auto simp: ingest_directory_def not_found_def)

theorem ingest_directory_not_found_witness:
  "path_exists NoSuchPath = Inr False
   \<and> ingest_directory plain_env fresh_engine ''/does/not/exist'' NoSuchPath True =
       (Inr (0, 1, [''Directory not found: /does/not/exist'']), fresh_engine)
   \<and> path_exists NotADirectory = Inr True \<and> path_is_dir NotADirectory = Inr False
   \<and> ingest_directory plain_env fresh_engine ''kb/a.py'' NotADirectory False =
       (Inr (0, 1, [''Directory not found: kb/a.py'']), fresh_engine)"
proof -
  have a: "path_exists NoSuchPath = Inr False" by (simp add: path_exists_def)
  have b: "path_exists NotADirectory = Inr True" "path_is_dir NotADirectory = Inr False"
    by (simp_all add: path_exists_def path_is_dir_def)
  from a b
    ingest_directory_not_found [of NoSuchPath plain_env fresh_engine "''/does/not/exist''" True]
    ingest_directory_not_found [of NotADirectory plain_env fresh_engine "''kb/a.py''" False]
  show ?thesis by simp
qed

subsection \<open>Repeated ingestion\<close>

text \<open>C7: a successful \<^verbatim>\<open>add_knowledge\<close> sets the ledger entry of the file's name to
  the record of this file (its path, its type label, the number of its chunks, its size)
  whatever the ledger held under that name before. Ingesting the same file again leaves
  the whole ledger as the first ingestion left it: the name has one entry, and it is
  that same record, with the same chunk count.\<close>

theorem ledger_upsert_idempotent:
  assumes first: "fst (fst (add_knowledge ev s f))"
    and ftype: "map_of SUPPORTED_EXTENSIONS (lower (f_suffix f)) = Some ftype"
    and docs: "load_file f = Some docs"
    and texts: "split_documents ev docs = Inr texts0"
    and size: "f_stat_size f = Inr sz"
    and keys: "distinct (map fst (ingested_files s))"
  shows "ingested_files (snd (add_knowledge ev s f))
           = AList.update (f_name f)
               \<lparr>r_path = f_path f, r_type = ftype, r_chunks = length texts0, r_size = sz\<rparr>
               (ingested_files s)
       \<and> get_file_info (snd (add_knowledge ev s f)) (f_name f)
           = Some \<lparr>r_path = f_path f, r_type = ftype, r_chunks = length texts0, r_size = sz\<rparr>
       \<and> ingested_files (snd (add_knowledge ev (snd (add_knowledge ev s f)) f))
           = ingested_files (snd (add_knowledge ev s f))
       \<and> get_file_info (snd (add_knowledge ev (snd (add_knowledge ev s f)) f)) (f_name f)
           = Some \<lparr>r_path = f_path f, r_type = ftype, r_chunks = length texts0, r_size = sz\<rparr>
       \<and> length (filter (\<lambda>e. fst e = f_name f)
             (ingested_files (snd (add_knowledge ev (snd (add_knowledge ev s f)) f)))) = 1"
proof -
  let ?s1 = "snd (add_knowledge ev s f)"
  let ?s2 = "snd (add_knowledge ev ?s1 f)"
  let ?r = "\<lparr>r_path = f_path f, r_type = ftype, r_chunks = length texts0, r_size = sz\<rparr>"
  from add_knowledge_success [OF first] ftype docs texts size
  have l1: "ingested_files ?s1 = AList.update (f_name f) ?r (ingested_files s)"
    by auto
  have l2: "ingested_files ?s2 = ingested_files ?s1"
  proof (cases "fst (fst (add_knowledge ev ?s1 f))")
    case True
    from add_knowledge_success [OF True] ftype docs texts size
    have "ingested_files ?s2 = AList.update (f_name f) ?r (ingested_files ?s1)"
      by auto
    then show ?thesis by (simp add: l1)
  next
    case False
    then show ?thesis
      by (auto simp: add_knowledge_def Let_def split: option.splits sum.splits if_splits)
  qed
  have g1: "get_file_info ?s1 (f_name f) = Some ?r"
    by (simp add: get_file_info_def l1 update_conv')
  have d1: "distinct (map fst (ingested_files ?s1))"
    unfolding l1 using keys by (rule distinct_update)
  have m1: "f_name f \<in> fst ` set (ingested_files ?s1)"
    by (simp add: l1 dom_update)
  have c1: "length (filter (\<lambda>e. fst e = f_name f) (ingested_files ?s1)) = 1"
    using d1 m1 by (rule one_entry_per_key)
  from l1 l2 g1 c1 show ?thesis
    by (simp add: get_file_info_def)
qed

theorem ledger_upsert_idempotent_witness:
  "fst (fst (add_knowledge plain_env stale_engine (text_file ''a.py'' ''.py'' ''print(1234567)'')))
   \<and> get_file_info stale_engine ''a.py'' = Some stale_record
   \<and> ingested_files
        (snd (add_knowledge plain_env stale_engine
                (text_file ''a.py'' ''.py'' ''print(1234567)'')))
       = [(''a.py'', \<lparr>r_path = ''kb/a.py'', r_type = ''Python Code'', r_chunks = 1, r_size = 14\<rparr>)]
   \<and> ingested_files
        (snd (add_knowledge plain_env
                (snd (add_knowledge plain_env stale_engine
                        (text_file ''a.py'' ''.py'' ''print(1234567)'')))
                (text_file ''a.py'' ''.py'' ''print(1234567)'')))
       = [(''a.py'', \<lparr>r_path = ''kb/a.py'', r_type = ''Python Code'', r_chunks = 1, r_size = 14\<rparr>)]"
proof -
  let ?f = "text_file ''a.py'' ''.py'' ''print(1234567)''"
  have stale: "ingested_files stale_engine = [(''a.py'', stale_record)]"
    "vectorstore stale_engine \<noteq> None"
    by (simp_all add: stale_engine_def fresh_engine_def)
  have ok: "fst (fst (add_knowledge plain_env stale_engine ?f))"
    using add_knowledge_valid [OF py_file_valid [OF long_enough(1)] stale(2)] by simp
  have ftype: "map_of SUPPORTED_EXTENSIONS (lower (f_suffix ?f)) = Some ''Python Code''"
    by (simp add: text_file_def lower_fixed SUPPORTED_EXTENSIONS_def)
  have docs: "load_file ?f = Some [text_document ?f ''print(1234567)'']"
    by (simp add: text_file_def lower_fixed load_file_def Let_def SKIP_EXTENSIONS_def
        SUPPORTED_EXTENSIONS_def text_extensions_def code_extensions_def docs_or_none_def
        strip_def isspace_def)
  have texts: "split_documents plain_env [text_document ?f ''print(1234567)'']
                 = Inr [text_document ?f ''print(1234567)'']"
    by (simp add: plain_env_def)
  have size: "f_stat_size ?f = Inr 14" by (simp add: text_file_def)
  have keys: "distinct (map fst (ingested_files stale_engine))" by (simp add: stale)
  have was: "get_file_info stale_engine ''a.py'' = Some stale_record"
    by (simp add: get_file_info_def stale)
  have fields: "f_name ?f = ''a.py''" "f_path ?f = ''kb/a.py''" by (simp_all add: text_file_def)
  note main = ledger_upsert_idempotent [OF ok ftype docs texts size keys]
  have upd: "AList.update ''a.py''
               \<lparr>r_path = ''kb/a.py'', r_type = ''Python Code'', r_chunks = 1, r_size = 14\<rparr>
               [(''a.py'', stale_record)]
             = [(''a.py'', \<lparr>r_path = ''kb/a.py'', r_type = ''Python Code'', r_chunks = 1, r_size = 14\<rparr>)]"
    by simp
  from main have
    "ingested_files (snd (add_knowledge plain_env stale_engine ?f))
       = [(''a.py'', \<lparr>r_path = ''kb/a.py'', r_type = ''Python Code'', r_chunks = 1, r_size = 14\<rparr>)]"
    "ingested_files (snd (add_knowledge plain_env (snd (add_knowledge plain_env stale_engine ?f)) ?f))
       = [(''a.py'', \<lparr>r_path = ''kb/a.py'', r_type = ''Python Code'', r_chunks = 1, r_size = 14\<rparr>)]"
    by (simp_all add: fields stale upd)
  with ok was show ?thesis by blast
qed

subsection \<open>Partial failure\<close>













subsection \<open>Retrieval\<close>

lemma digit_chars:
  "char_of (48 :: nat) = CHR ''0''" "char_of (49 :: nat) = CHR ''1''"
  "char_of (50 :: nat) = CHR ''2''" "char_of (51 :: nat) = CHR ''3''"
  "char_of (52 :: nat) = CHR ''4''" "char_of (53 :: nat) = CHR ''5''"
  "char_of (54 :: nat) = CHR ''6''" "char_of (55 :: nat) = CHR ''7''"
  "char_of (56 :: nat) = CHR ''8''" "char_of (57 :: nat) = CHR ''9''"
  by code_simp+

lemma round_half_even_mono:
  assumes "x \<le> y"
  shows "round_half_even x \<le> round_half_even y"
proof (cases "\<lfloor>x\<rfloor> = \<lfloor>y\<rfloor>")
  case True
  with assms show ?thesis
    by (auto simp: round_half_even_def Let_def)
next
  case False
  with assms have lt: "\<lfloor>x\<rfloor> < \<lfloor>y\<rfloor>"
    using floor_mono [OF assms] by linarith
  have a: "round_half_even x \<le> \<lfloor>x\<rfloor> + 1"
    by (auto simp: round_half_even_def Let_def)
  have b: "\<lfloor>y\<rfloor> \<le> round_half_even y"
    by (auto simp: round_half_even_def Let_def)
  from a b lt show ?thesis by linarith
qed

lemma relevances_map:
  "relevances (map result_of hits) = map (\<lambda>h. format_percent (1 - snd h)) hits"
  by (induction hits) (simp_all add: result_of_def Let_def)

lemma descending_similarity:
  "sorted (map snd hits) \<Longrightarrow>
   sorted_wrt (\<lambda>a b. a \<ge> b) (map (\<lambda>h. (1 - snd h) * 100) (hits :: (document \<times> rat) list))"
  by (induction hits) auto

lemma descending_rendering:
  "sorted (map snd hits) \<Longrightarrow>
   sorted_wrt (\<lambda>a b. a \<ge> b)
     (map (\<lambda>h. round_half_even ((1 - snd h) * 100 * 100)) (hits :: (document \<times> rat) list))"
proof (induction hits)
  case Nil
  then show ?case by simp
next
  case (Cons h hits)
  have "\<forall>g \<in> set hits. round_half_even ((1 - snd g) * 100 * 100)
                          \<le> round_half_even ((1 - snd h) * 100 * 100)"
  proof
    fix g assume "g \<in> set hits"
    with Cons.prems have "snd h \<le> snd g" by auto
    then have "(1 - snd g) * 100 * 100 \<le> (1 - snd h) * 100 * 100" by simp
    then show "round_half_even ((1 - snd g) * 100 * 100)
                 \<le> round_half_even ((1 - snd h) * 100 * 100)"
      by (rule round_half_even_mono)
  qed
  with Cons show ?case by simp
qed

lemma corpus_query_answer:
  assumes "corpus_query distance unavailable vs query k = Inr hits"
  shows "length hits \<le> nat k \<and> sorted (map snd hits)"
proof -
  from assms have h: "hits = take (nat k) (sort_key snd (map (\<lambda>doc. (doc, distance query doc)) vs))"
    by (simp add: corpus_query_def split: option.splits)
  have "sorted (map snd (sort_key snd (map (\<lambda>doc. (doc, distance query doc)) vs)))"
    by (rule sorted_sort_key)
  then have "sorted (take (nat k) (map snd (sort_key snd (map (\<lambda>doc. (doc, distance query doc)) vs))))"
    by (rule sorted_wrt_take)
  then show ?thesis unfolding h by (simp add: take_map)
qed

text \<open>C5: let the index be the Corpus Index of the specification, with any distance. For
  every query and every \<open>k > 0\<close>, \<^verbatim>\<open>search_knowledge\<close> returns at most \<open>k\<close> results.
  When the index answers, the results are its hits in its order; their similarities
  \<open>(1 - d) * 100\<close> descend, and so do the numbers that are printed; the relevance of a hit
  at distance \<open>d\<close> is \<open>1 - d\<close> rendered as a percentage, whatever \<open>d\<close> is: a distance above
  1 gives a negative percentage. Without a store, or when the index is unavailable, the
  one notice returned is within the bound as well.\<close>

theorem search_at_most_k_descending:
  assumes k: "0 < k"
  shows "int (length (search_knowledge
                 (ev\<lparr>similarity_search_with_score := corpus_query distance unavailable\<rparr>)
                 s query k)) \<le> k
       \<and> (\<forall>vs hits. vectorstore s = Some vs
              \<and> corpus_query distance unavailable vs query k = Inr hits
            \<longrightarrow> search_knowledge
                  (ev\<lparr>similarity_search_with_score := corpus_query distance unavailable\<rparr>)
                  s query k = map result_of hits
              \<and> relevances (search_knowledge
                  (ev\<lparr>similarity_search_with_score := corpus_query distance unavailable\<rparr>)
                  s query k) = map (\<lambda>h. format_percent (1 - snd h)) hits
              \<and> sorted_wrt (\<lambda>a b. a \<ge> b) (map (\<lambda>h. (1 - snd h) * 100) hits)
              \<and> sorted_wrt (\<lambda>a b. a \<ge> b)
                   (map (\<lambda>h. round_half_even ((1 - snd h) * 100 * 100)) hits))"
proof -
  let ?ev = "ev\<lparr>similarity_search_with_score := corpus_query distance unavailable\<rparr>"
  have bound: "int (length (search_knowledge ?ev s query k)) \<le> k"
  proof (cases "vectorstore s")
    case None
    with k show ?thesis by (simp add: search_knowledge_def)
  next
    case (Some vs)
    show ?thesis
    proof (cases "corpus_query distance unavailable vs query k")
      case (Inl e)
      with Some k show ?thesis by (simp add: search_knowledge_def)
    next
      case (Inr hits)
      from corpus_query_answer [OF Inr] k have "int (length hits) \<le> k" by linarith
      with Some Inr show ?thesis by (simp add: search_knowledge_def)
    qed
  qed
  have hits: "\<forall>vs hits. vectorstore s = Some vs
              \<and> corpus_query distance unavailable vs query k = Inr hits
            \<longrightarrow> search_knowledge ?ev s query k = map result_of hits
              \<and> relevances (search_knowledge ?ev s query k)
                  = map (\<lambda>h. format_percent (1 - snd h)) hits
              \<and> sorted_wrt (\<lambda>a b. a \<ge> b) (map (\<lambda>h. (1 - snd h) * 100) hits)
              \<and> sorted_wrt (\<lambda>a b. a \<ge> b)
                   (map (\<lambda>h. round_half_even ((1 - snd h) * 100 * 100)) hits)"
  proof (intro allI impI)
    fix vs hits
    assume h: "vectorstore s = Some vs \<and> corpus_query distance unavailable vs query k = Inr hits"
    then have res: "search_knowledge ?ev s query k = map result_of hits"
      by (simp add: search_knowledge_def)
    from h corpus_query_answer have asc: "sorted (map snd hits)" by blast
    from res relevances_map [of hits] descending_similarity [OF asc] descending_rendering [OF asc]
    show "search_knowledge ?ev s query k = map result_of hits
              \<and> relevances (search_knowledge ?ev s query k)
                  = map (\<lambda>h. format_percent (1 - snd h)) hits
              \<and> sorted_wrt (\<lambda>a b. a \<ge> b) (map (\<lambda>h. (1 - snd h) * 100) hits)
              \<and> sorted_wrt (\<lambda>a b. a \<ge> b)
                   (map (\<lambda>h. round_half_even ((1 - snd h) * 100 * 100)) hits)"
      by (simp only:) 
  qed
  from bound hits show ?thesis by (intro conjI)
qed


lemma stocked_answer:
  "corpus_query topic_distance None
     [chunk ''i2c.md'' ''I2C needs pull-up resistors.'',
      chunk ''spi.md'' ''SPI is full duplex.'',
      chunk ''timers.md'' ''Timer 1 is a 16-bit counter.'',
      chunk ''uart.md'' ''The UART shifts bits out LSB first.'']
     ''timer overflow'' 3
   = Inr [(chunk ''timers.md'' ''Timer 1 is a 16-bit counter.'', 1 / 10),
          (chunk ''uart.md'' ''The UART shifts bits out LSB first.'', 2 / 5),
          (chunk ''spi.md'' ''SPI is full duplex.'', 3 / 2)]"
  by (simp add: corpus_query_def topic_distance_def meta_get_def chunk_def)

theorem search_at_most_k_descending_witness:
  "(0 :: int) < 3
   \<and> int (length (search_knowledge stocked_env stocked_engine ''timer overflow'' 3)) \<le> 3
   \<and> relevances (search_knowledge stocked_env stocked_engine ''timer overflow'' 3)
       = [''90.00%'', ''60.00%'', ''-50.00%'']"
proof -
  have k: "(0 :: int) < 3" by simp
  have store: "vectorstore stocked_engine =
     Some [chunk ''i2c.md'' ''I2C needs pull-up resistors.'',
           chunk ''spi.md'' ''SPI is full duplex.'',
           chunk ''timers.md'' ''Timer 1 is a 16-bit counter.'',
           chunk ''uart.md'' ''The UART shifts bits out LSB first.'']"
    by (simp add: stocked_engine_def)
  note main = search_at_most_k_descending
                [OF k, where ev = plain_env and distance = topic_distance
                   and unavailable = None and s = stocked_engine
                   and query = "''timer overflow''"]
  from main have bound:
    "int (length (search_knowledge stocked_env stocked_engine ''timer overflow'' 3)) \<le> 3"
    unfolding stocked_env_def by blast
  from main store stocked_answer
  have "relevances (search_knowledge stocked_env stocked_engine ''timer overflow'' 3)
        = map (\<lambda>h. format_percent (1 - snd h))
            [(chunk ''timers.md'' ''Timer 1 is a 16-bit counter.'', 1 / 10),
             (chunk ''uart.md'' ''The UART shifts bits out LSB first.'', 2 / 5),
             (chunk ''spi.md'' ''SPI is full duplex.'', 3 / 2)]"
    unfolding stocked_env_def by blast
  then have rel: "relevances (search_knowledge stocked_env stocked_engine ''timer overflow'' 3)
       = [''90.00%'', ''60.00%'', ''-50.00%'']"
    by (simp add: format_percent_def round_half_even_def Let_def str_of_nat.simps digit_chars)
  from k bound rel show ?thesis by blast
qed

subsection \<open>The start-up decision\<close>

lemma tolerance_div: "tolerance n = n div 20"
proof -
  have "(of_int n :: rat) * (5 / 100) = of_int n / of_int 20" by simp
  then show ?thesis
    unfolding tolerance_def by (simp only: floor_divide_of_int_eq)
qed

lemma scan_loop_listing:
  "scan_loop ns stats = Inr stats' \<Longrightarrow> \<exists>fs. first_loop ns = Inr fs"
proof (induction ns stats arbitrary: stats' rule: scan_loop.induct)
  case (1 stats)
  then show ?case by simp
next
  case (2 e ns stats)
  then show ?case by simp
next
  case (3 d children ns stats)
  then show ?case by simp
next
  case (4 f ns stats)
  then show ?case
    by (fastforce simp: Let_def split: option.splits if_splits sum.splits)
qed

lemma scan_ok_ingest_returns:
  assumes "scan_directory kb t True = Inr (ScanStats stats)" "total_files stats \<noteq> 0"
  shows "\<exists>triple. fst (ingest_directory ev s kb t True) = Inr triple"
proof (cases t)
  case NoSuchPath
  with assms show ?thesis by (simp add: scan_directory_def path_exists_def)
next
  case NotADirectory
  with assms show ?thesis by (auto simp: scan_directory_def path_exists_def glob_def)
next
  case (Directory children)
  from assms(1) Directory obtain st where
    "scan_loop (glob t True) st = Inr stats"
    by (auto simp: scan_directory_def path_exists_def split: sum.splits)
  from scan_loop_listing [OF this] obtain fs where fs: "all_files t True = Inr fs"
    by (auto simp: all_files_def)
  have nf: "not_found t = Inr False"
    using Directory by (simp add: not_found_def path_exists_def path_is_dir_def)
  show ?thesis by (simp add: ingest_directory_def nf fs Let_def)
next
  case (StatRaises e)
  with assms show ?thesis by (simp add: scan_directory_def path_exists_def)
qed

text \<open>With no event loop running in the calling thread, the routine runs the full
  ingestion exactly when the ledger holds fewer than \<open>total - \<lfloor>total * 0.05\<rfloor>\<close> entries.
  (The float product of the source is taken in exact arithmetic.)\<close>

lemma auto_ingest_decision:
  assumes "scan_knowledge_base kb t = Inr (ScanStats stats)"
  shows "ran_ingestion (fst (auto_ingest_on_startup ev s kb t False))
           \<longleftrightarrow> \<not> int (length (get_ingested_files s))
                    \<ge> int (total_files stats) - \<lfloor>(of_nat (total_files stats) :: rat) * (5 / 100)\<rfloor>"
proof -
  have tol: "\<lfloor>(of_nat (total_files stats) :: rat) * (5 / 100)\<rfloor> = tolerance (int (total_files stats))"
    by (simp add: tolerance_def)
  have nonneg: "0 \<le> tolerance (int (total_files stats))"
    by (simp add: tolerance_div)
  show ?thesis
  proof (cases "total_files stats = 0")
    case True
    with assms nonneg show ?thesis
      unfolding tol by (simp add: auto_ingest_on_startup_def Let_def)
  next
    case False
    from assms have "scan_directory kb t True = Inr (ScanStats stats)"
      by (simp add: scan_knowledge_base_def)
    from scan_ok_ingest_returns [OF this False, of ev s] obtain triple where
      "fst (ingest_directory ev s kb t True) = Inr triple" by blast
    then have "\<exists>report. fst (ingest_knowledge_base ev s kb t) = Inr report"
      by (cases triple) (simp add: ingest_knowledge_base_def Let_def)
    then obtain report where "fst (ingest_knowledge_base ev s kb t) = Inr report" by blast
    with assms False show ?thesis
      unfolding tol by (simp add: auto_ingest_on_startup_def Let_def)
  qed
qed

lemma scan_mixed_kb:
  "scan_knowledge_base ''kb'' mixed_directory =
     Inr (ScanStats
       \<lparr>directory = ''kb'',
        files_by_type =
          [(''Python Code'', \<lparr>ts_count = 3, ts_size_mb = 21 / 524288\<rparr>),
           (''Image'', \<lparr>ts_count = 2, ts_size_mb = 3 / 512\<rparr>),
           (''PDF Document'', \<lparr>ts_count = 1, ts_size_mb = 25 / 524288\<rparr>)],
        total_files = 6, total_size_mb = 1559 / 262144\<rparr>)"
  by (simp add: scan_knowledge_base_def scan_mixed_directory)

text \<open>C9: a knowledge base of six scanned files and an empty ledger are below the
  threshold, so the claim has the full ingestion run. Built inside a running event loop,
  as \<^verbatim>\<open>main.py\<close> builds it, the routine ends in its exception handler with the ledger
  and the store untouched; built outside one, it ingests.\<close>

theorem auto_ingest_inside_running_loop:
  "\<not> int (length (get_ingested_files fresh_engine)) \<ge> 6 - \<lfloor>(6 :: rat) * (5 / 100)\<rfloor>
   \<and> auto_ingest_on_startup plain_env fresh_engine ''kb'' mixed_directory True
       = (AutoIngestError loop_running_error, fresh_engine)
   \<and> \<not> ran_ingestion (fst (auto_ingest_on_startup plain_env fresh_engine ''kb'' mixed_directory True))
   \<and> ran_ingestion (fst (auto_ingest_on_startup plain_env fresh_engine ''kb'' mixed_directory False))"
proof -
  have below: "\<not> int (length (get_ingested_files fresh_engine)) \<ge> 6 - \<lfloor>(6 :: rat) * (5 / 100)\<rfloor>"
    by (simp add: get_ingested_files_def fresh_engine_def)
  have inside: "auto_ingest_on_startup plain_env fresh_engine ''kb'' mixed_directory True
       = (AutoIngestError loop_running_error, fresh_engine)"
    by (simp add: auto_ingest_on_startup_def scan_mixed_kb Let_def tolerance_def
          get_ingested_files_def fresh_engine_def)
  have outside: "ran_ingestion (fst (auto_ingest_on_startup plain_env fresh_engine ''kb'' mixed_directory False))"
    using auto_ingest_decision [OF scan_mixed_kb, of plain_env fresh_engine]
    by (simp add: get_ingested_files_def fresh_engine_def)
  from below inside outside show ?thesis by simp
qed

end
